theory Spec2Isabelle
  imports Main "HOL-Library.AList"
begin

section \<open>The type checker of BlueScript (server/src/transpiler/type-checker.ts)\<close>

text \<open>
  A shallow embedding of the visitor \<^verbatim>\<open>TypeChecker\<close> and of its subclass
  \<^verbatim>\<open>ConstructorChecker\<close>. Every handler of the source is a function from the
  checker's state to the checker's state; the state holds the fields of the checker
  object, the error log it shares, and the annotations the checker attaches to AST
  nodes. An AST node carries a number that stands for its identity as a JavaScript
  object: the annotations and the locations of diagnostics are keyed by it.
\<close>

subsection \<open>Static types\<close>

text \<open>
  The type lattice is imported by the checker from \<^verbatim>\<open>./types\<close> and
  \<^verbatim>\<open>./classes\<close>. The primitive types are constants compared with
  \<^verbatim>\<open>===\<close>; the other types are objects that the checker inspects with
  \<^verbatim>\<open>instanceof\<close> and through their accessors. An instance type is a named
  class; what its accessors return is a parameter of the model (see \<open>library\<close>).
\<close>

datatype StaticType =
    Integer
  | Float
  | BooleanT
  | StringT
  | Void
  | Null
  | Any
  | objectType
  | InstanceType string
  | FunctionType StaticType "StaticType list"
  | ArrayType StaticType
  | OptionalType StaticType

text \<open>Modelled from the spec: \<^verbatim>\<open>isNumeric(t)\<close> of types.ts, "true for integer, float".\<close>

definition isNumeric :: "StaticType \<Rightarrow> bool" where
  "isNumeric t = (t = Integer \<or> t = Float)"

text \<open>Modelled from the spec: \<^verbatim>\<open>isPrimitiveType(t)\<close> of types.ts, "true for the
  scalars enumerated above": integer, float, boolean, string, void, null, any.\<close>

definition isPrimitiveType :: "StaticType \<Rightarrow> bool" where
  "isPrimitiveType t = (t \<in> {Integer, Float, BooleanT, StringT, Void, Null, Any})"

subsection \<open>The error log and the checker's state\<close>

text \<open>
  Modelled from the spec: the error log of utils.ts "accumulates (message, source
  location) pairs" and "can absorb another log verbatim". A location is the node the
  diagnostic was pushed with; an absorbed log is kept whole, with the name of the source
  file it was added under.
\<close>

datatype logEntry =
    Pushed string nat
  | Added "logEntry list" string

type_synonym ErrorLog = "logEntry list"

definition push :: "string \<Rightarrow> nat \<Rightarrow> ErrorLog \<Rightarrow> ErrorLog" where
  "push msg node log = log @ [Pushed msg node]"

definition add :: "ErrorLog \<Rightarrow> string \<Rightarrow> ErrorLog \<Rightarrow> ErrorLog" where
  "add e sourceFile log = log @ [Added e sourceFile]"

definition hasError :: "ErrorLog \<Rightarrow> bool" where
  "hasError log = (log \<noteq> [])"

text \<open>
  The fields of \<^verbatim>\<open>TypeChecker\<close> (\<open>errorLog\<close>, \<open>result\<close>, \<open>firstPass\<close>,
  \<open>inExport\<close>), the fields \<^verbatim>\<open>ConstructorChecker\<close> adds (\<open>hasSuperCall\<close>,
  \<open>toplevel\<close>, \<open>properties\<close>; \<open>isConstructorChecker\<close> tells which class the
  receiver belongs to, so which handlers are overridden), and the side table of
  names.ts: the static type and the coercion flag attached to a node.
  \<open>properties\<close> is a JavaScript object used as a dictionary; \<^verbatim>\<open>for ... in\<close>
  enumerates its keys in the order they were first stored, so it is an association list.
\<close>

record checker =
  errorLog :: ErrorLog
  result :: StaticType
  firstPass :: bool
  inExport :: bool
  isConstructorChecker :: bool
  hasSuperCall :: bool
  toplevel :: int
  properties :: "(string \<times> bool) list"
  staticTypes :: "nat \<Rightarrow> StaticType option"
  coercionFlags :: "nat \<Rightarrow> bool"

text \<open>\<^verbatim>\<open>assert(test, msg, node)\<close> pushes the message when the test fails. The source
  returns \<open>test\<close>; here the caller keeps it.\<close>

definition assert :: "bool \<Rightarrow> string \<Rightarrow> nat \<Rightarrow> checker \<Rightarrow> checker" where
  "assert test msg node st = (if \<not> test then st\<lparr>errorLog := push msg node (errorLog st)\<rparr> else st)"

definition assertSyntax :: "bool \<Rightarrow> nat \<Rightarrow> checker \<Rightarrow> checker" where
  "assertSyntax test node st = assert test ''syntax error'' node st"

text \<open>Modelled from the spec: \<^verbatim>\<open>addStaticType\<close> and \<^verbatim>\<open>addCoercionFlag\<close> of
  names.ts attach the inferred static type and a coercion flag to a node.\<close>

definition names_addStaticType :: "nat \<Rightarrow> StaticType \<Rightarrow> checker \<Rightarrow> checker" where
  "names_addStaticType node t st = st\<lparr>staticTypes := (staticTypes st)(node \<mapsto> t)\<rparr>"

definition names_addCoercionFlag :: "nat \<Rightarrow> bool \<Rightarrow> checker \<Rightarrow> checker" where
  "names_addCoercionFlag node b st = st\<lparr>coercionFlags := (coercionFlags st)(node := b)\<rparr>"

definition addStaticType :: "nat \<Rightarrow> StaticType \<Rightarrow> checker \<Rightarrow> checker" where
  "addStaticType expr t st = (if \<not> firstPass st then names_addStaticType expr t st else st)"

definition addCoercion :: "nat \<Rightarrow> StaticType \<Rightarrow> checker \<Rightarrow> checker" where
  "addCoercion expr t st =
     (if \<not> firstPass st then names_addCoercionFlag expr True (names_addStaticType expr t st)
      else st)"

definition addCoercionIfAny :: "nat \<Rightarrow> StaticType \<Rightarrow> checker \<Rightarrow> checker" where
  "addCoercionIfAny expr t st = (if \<not> firstPass st \<and> t = Any then addCoercion expr t st else st)"

definition addCoercionForBoolean :: "nat \<Rightarrow> StaticType \<Rightarrow> checker \<Rightarrow> checker" where
  "addCoercionForBoolean expr t st =
     (if \<not> firstPass st \<and> \<not> isPrimitiveType t then addCoercion expr t st else st)"

subsection \<open>Numeric literals\<close>

text \<open>
  \<^verbatim>\<open>/^[0-9A-Fa-fXx]+$/\<close> and \<^verbatim>\<open>/^[0-9.e+\-]+$/\<close>: a non-empty string all of whose
  characters belong to the class. \<^verbatim>\<open>node.extra?.raw\<close> may be undefined, and
  \<^verbatim>\<open>RegExp.test\<close> then matches against the string "undefined".
\<close>

definition isDigit :: "char \<Rightarrow> bool" where
  "isDigit c = (c \<in> set ''0123456789'')"

definition integerChar :: "char \<Rightarrow> bool" where
  "integerChar c = (isDigit c \<or> c \<in> set ''ABCDEF'' \<or> c \<in> set ''abcdef'' \<or> c \<in> set ''Xx'')"

definition floatChar :: "char \<Rightarrow> bool" where
  "floatChar c = (isDigit c \<or> c \<in> set ''.e+-'')"

definition matchesClass :: "(char \<Rightarrow> bool) \<Rightarrow> string \<Rightarrow> bool" where
  "matchesClass cls s = (s \<noteq> [] \<and> list_all cls s)"

definition rawText :: "string option \<Rightarrow> string" where
  "rawText raw = (case raw of None \<Rightarrow> ''undefined'' | Some s \<Rightarrow> s)"

definition numericLiteral :: "nat \<Rightarrow> string option \<Rightarrow> checker \<Rightarrow> checker" where
  "numericLiteral node raw st =
     (let literal = rawText raw;
          st1 = (if matchesClass integerChar literal then st\<lparr>result := Integer\<rparr>
                 else if matchesClass floatChar literal then st\<lparr>result := Float\<rparr>
                 else assert False ''bad numeric literal'' node st)
      in addStaticType node (result st1) st1)"

subsection \<open>What the checker imports from the rest of the transpiler\<close>

text \<open>
  The relations on types (types.ts), the element representation rule
  (code-generator/c-runtime.ts) and the accessors of an instance type (classes.ts) are
  called by the checker and defined elsewhere. They are parameters of the model: every
  handler takes them as a record, and a property proved for every record holds for the
  ones the transpiler really has. \<open>findConstructor\<close> gives the return type and the
  parameter types of the function type that the source's accessor returns.
\<close>

record library =
  isSubtype :: "StaticType \<Rightarrow> StaticType \<Rightarrow> bool"
  isConsistent :: "StaticType \<Rightarrow> StaticType \<Rightarrow> bool"
  commonSuperType :: "StaticType \<Rightarrow> StaticType \<Rightarrow> StaticType option"
  typeToString :: "StaticType \<Rightarrow> string"
  actualElementType :: "StaticType \<Rightarrow> StaticType"
  ByteArrayClass :: string
  findProperty :: "StaticType \<Rightarrow> string \<Rightarrow> (StaticType \<times> nat) option"
  findMethod :: "StaticType \<Rightarrow> string \<Rightarrow> (StaticType \<times> nat) option"
  findConstructor :: "StaticType \<Rightarrow> (StaticType \<times> StaticType list) option"
  unboxedProperties :: "StaticType \<Rightarrow> nat option"
  superclass :: "StaticType \<Rightarrow> StaticType"
  extendsObject :: "StaticType \<Rightarrow> bool"
  forEachName :: "StaticType \<Rightarrow> string list"

text \<open>Modelled from the spec: \<^verbatim>\<open>ArrayType.lengthMethod\<close> of types.ts, the
  "distinguished \<open>length\<close> method name" of an array type.\<close>

definition lengthMethod :: string where
  "lengthMethod = ''length''"

subsection \<open>Symbol tables\<close>

text \<open>
  Modelled from the spec: the name tables of names.ts. A table maps an identifier to a
  name info (the bound static type and the flags \<open>isConst\<close>, \<open>isFunction\<close>,
  \<open>isTypeName\<close>, \<open>isExported\<close>); it is a global, a function or a block table, has a
  parent (except the outermost global), and a function table holds the return type of
  its function. \<open>lookup\<close> searches the chain to the root, \<open>lookupInThis\<close> only the
  table itself, and a name is recorded once per scope: recording it again fails.
\<close>

record NameInfo =
  type :: StaticType
  isConst :: bool
  isFunction :: bool
  isTypeName :: bool
  isExported :: bool

datatype NameTable =
    GlobalNameTable "(string \<times> NameInfo) list" "NameTable option"
  | FunctionNameTable "(string \<times> NameInfo) list" "StaticType option" NameTable
  | BlockNameTable "(string \<times> NameInfo) list" NameTable

fun elements :: "NameTable \<Rightarrow> (string \<times> NameInfo) list" where
  "elements (GlobalNameTable es p) = es"
| "elements (FunctionNameTable es r p) = es"
| "elements (BlockNameTable es p) = es"

fun parent :: "NameTable \<Rightarrow> NameTable option" where
  "parent (GlobalNameTable es p) = p"
| "parent (FunctionNameTable es r p) = Some p"
| "parent (BlockNameTable es p) = Some p"

fun setElements :: "(string \<times> NameInfo) list \<Rightarrow> NameTable \<Rightarrow> NameTable" where
  "setElements es' (GlobalNameTable es p) = GlobalNameTable es' p"
| "setElements es' (FunctionNameTable es r p) = FunctionNameTable es' r p"
| "setElements es' (BlockNameTable es p) = BlockNameTable es' p"

definition lookupInThis :: "NameTable \<Rightarrow> string \<Rightarrow> NameInfo option" where
  "lookupInThis names key = map_of (elements names) key"

fun lookup :: "NameTable \<Rightarrow> string \<Rightarrow> NameInfo option" where
  "lookup (GlobalNameTable es p) key =
     (case map_of es key of
        Some info \<Rightarrow> Some info
      | None \<Rightarrow> (case p of None \<Rightarrow> None | Some q \<Rightarrow> lookup q key))"
| "lookup (FunctionNameTable es r p) key =
     (case map_of es key of Some info \<Rightarrow> Some info | None \<Rightarrow> lookup p key)"
| "lookup (BlockNameTable es p) key =
     (case map_of es key of Some info \<Rightarrow> Some info | None \<Rightarrow> lookup p key)"

fun isGlobal :: "NameTable \<Rightarrow> bool" where
  "isGlobal (GlobalNameTable es p) = True"
| "isGlobal (FunctionNameTable es r p) = False"
| "isGlobal (BlockNameTable es p) = False"

definition hasParent :: "NameTable \<Rightarrow> bool" where
  "hasParent names = (parent names \<noteq> None)"

text \<open>\<^verbatim>\<open>names.record(key, type, maker, setter)\<close>: the info the maker builds has every
  flag unset, and the setter then assigns some of them. The result is whether the name
  was free in this scope, and the table afterwards.\<close>

definition makeInfo :: "StaticType \<Rightarrow> NameInfo" where
  "makeInfo t = \<lparr>type = t, isConst = False, isFunction = False, isTypeName = False, isExported = False\<rparr>"

definition recordName ::
  "string \<Rightarrow> StaticType \<Rightarrow> (NameInfo \<Rightarrow> NameInfo) \<Rightarrow> NameTable \<Rightarrow> bool \<times> NameTable" where
  "recordName key t setter names =
     (case map_of (elements names) key of
        Some old \<Rightarrow> (False, names)
      | None \<Rightarrow> (True, setElements (elements names @ [(key, setter (makeInfo t))]) names))"

text \<open>\<^verbatim>\<open>maker.block(names)\<close> and \<^verbatim>\<open>maker.function(names)\<close>.\<close>

definition block :: "NameTable \<Rightarrow> NameTable" where
  "block names = BlockNameTable [] names"

definition function_table :: "NameTable \<Rightarrow> NameTable" where
  "function_table names = FunctionNameTable [] None names"

text \<open>Modelled from the spec: \<^verbatim>\<open>importInfo\<close> of the global table "copies a single
  symbol from an externally-produced table into the global scope".\<close>

definition importInfo :: "string \<Rightarrow> NameInfo \<Rightarrow> NameTable \<Rightarrow> NameTable" where
  "importInfo key info env = setElements (AList.update key info (elements env)) env"

subsection \<open>The constructor validator\<close>

text \<open>
  \<^verbatim>\<open>new ConstructorChecker(checker, clazz)\<close>: a checker that shares the error log
  with \<open>checker\<close>, copies its \<open>result\<close> and \<open>firstPass\<close>, and starts with no super
  call seen, depth 0 and every name of the class unflagged. \<^verbatim>\<open>properties[name] = b\<close>
  keeps the place of a key that is already there and appends a new one; the names are
  identifiers, so none is an array index, which would be enumerated first. On a plain
  object the key \<open>__proto__\<close> is the accessor of the prototype: assigning a boolean
  to it stores nothing, so that name never gets an entry.
\<close>

definition setProperty :: "string \<Rightarrow> bool \<Rightarrow> (string \<times> bool) list \<Rightarrow> (string \<times> bool) list" where
  "setProperty name b ps = (if name = ''__proto__'' then ps else AList.update name b ps)"

definition ConstructorChecker :: "library \<Rightarrow> checker \<Rightarrow> StaticType \<Rightarrow> checker" where
  "ConstructorChecker L chk clazz =
     chk\<lparr>inExport := False, isConstructorChecker := True, hasSuperCall := False, toplevel := 0,
         properties := foldl (\<lambda>ps name. setProperty name False ps) [] (forEachName L clazz)\<rparr>"

fun isValid_loop :: "(string \<times> bool) list \<Rightarrow> string option \<Rightarrow> string option" where
  "isValid_loop [] error = error"
| "isValid_loop ((prop, flag) # ps) error =
     isValid_loop ps (if \<not> flag then Some (''uninitialized property: '' @ prop) else error)"

definition isValid :: "library \<Rightarrow> StaticType \<Rightarrow> checker \<Rightarrow> string option" where
  "isValid L clazz st =
     isValid_loop (properties st)
       (if hasSuperCall st \<or> extendsObject L clazz then None else Some ''super() is not called'')"

text \<open>The two lines of \<^verbatim>\<open>classMethod\<close> that report the verdict of the validator:
  \<^verbatim>\<open>const error = visitor.isValid(clazz); this.assert(error === null, error || '', node)\<close>.
  \<open>cc\<close> is the validator after it has visited the constructor, \<open>st\<close> the checker
  that made it; they share the error log.\<close>

definition reportIsValid :: "library \<Rightarrow> StaticType \<Rightarrow> nat \<Rightarrow> checker \<Rightarrow> checker \<Rightarrow> checker" where
  "reportIsValid L clazz node cc st =
     (let error = isValid L clazz cc
      in assert (error = None) (case error of None \<Rightarrow> [] | Some e \<Rightarrow> e) node st)"

subsection \<open>Exceptions\<close>

text \<open>
  A handler that can raise returns a sum: on the left what was thrown and the checker as
  it was at that moment (what was pushed and attached before stays), on the right the
  checker after a normal return. \<^verbatim>\<open>this.visit(node, env)\<close> dispatches on the kind of
  the node, so visiting a node that is not there (an index past the end of an array)
  raises a \<^verbatim>\<open>TypeError\<close>; \<open>Rethrown v\<close> is a value \<open>v\<close> that the importer threw
  and the checker throws again.
\<close>

datatype thrown = TypeError | Rethrown nat

fun finalState :: "(thrown \<times> checker) + checker \<Rightarrow> checker" where
  "finalState (Inl (e, st)) = st"
| "finalState (Inr st) = st"

subsection \<open>Type annotations\<close>

text \<open>
  The nodes of a type annotation. A type reference holds the name of its identifier and
  whether it has type parameters; a function type holds the annotation of each
  parameter, if any, and of the result, if any; a union type holds its options.
\<close>

datatype tsType =
    TSTypeAnnotation nat tsType
  | TSTypeReference nat string bool
  | TSArrayType nat tsType
  | TSFunctionType nat "tsType option list" "tsType option"
  | TSNumberKeyword nat
  | TSVoidKeyword nat
  | TSBooleanKeyword nat
  | TSStringKeyword nat
  | TSObjectKeyword nat
  | TSAnyKeyword nat
  | TSNullKeyword nat
  | TSUndefinedKeyword nat
  | TSUnionType nat "tsType list"

text \<open>\<^verbatim>\<open>tsTypeReference\<close>, after the two syntax assertions; \<^verbatim>\<open>Float\<close> and
  \<^verbatim>\<open>Integer\<close> are the strings \<open>float\<close> and \<open>integer\<close> (the names that
  \<^verbatim>\<open>tsTypeAliasDeclaration\<close> accepts).\<close>

definition tsTypeReference :: "NameTable \<Rightarrow> nat \<Rightarrow> string \<Rightarrow> bool \<Rightarrow> checker \<Rightarrow> checker" where
  "tsTypeReference names node name typeParameters st =
     (let st1 = assertSyntax True node st;
          st2 = assertSyntax (\<not> typeParameters) node st1
      in if name = ''float'' then st2\<lparr>result := Float\<rparr>
         else if name = ''integer'' then st2\<lparr>result := Integer\<rparr>
         else (case lookup names name of
                 None \<Rightarrow> (assert False (''unknown type name: '' @ name) node st2)\<lparr>result := Any\<rparr>
               | Some info \<Rightarrow>
                   if isTypeName info then st2\<lparr>result := type info\<rparr>
                   else (assert False (''not a type name: '' @ name) node st2)\<lparr>result := Any\<rparr>))"

definition isOptionalType :: "StaticType \<Rightarrow> bool" where
  "isOptionalType t = (case t of OptionalType e \<Rightarrow> True | _ \<Rightarrow> False)"

text \<open>\<^verbatim>\<open>tsUnionType\<close> once both options have been visited: \<open>t1\<close> and \<open>t2\<close> are the
  results of the two visits.\<close>

definition unionOfOptions :: "library \<Rightarrow> nat \<Rightarrow> StaticType \<Rightarrow> StaticType \<Rightarrow> checker \<Rightarrow> checker" where
  "unionOfOptions L node t1 t2 st =
     (let st1 = assert (t1 = Null \<or> t2 = Null)
                  ''only optional types are supported -- at least one option must be undefined'' node st;
          st2 = assert (t1 \<noteq> Null \<or> t2 \<noteq> Null)
                  ''only optional types are supported -- at least one option must be a non-undefined type'' node st1;
          t1' = (if t1 = Null then t2 else t1);
          st3 = assert (t1' \<noteq> Any) ''fail to construct an optional type -- any is already optional'' node st2;
          st4 = assert (\<not> isOptionalType t1')
                  (''fail to construct an optional type -- '' @ [CHR 0x22] @ typeToString L t1'
                     @ [CHR 0x22] @ '' is already optional'')
                  node st3
      in st4\<lparr>result := OptionalType t1'\<rparr>)"

fun visitT :: "library \<Rightarrow> NameTable \<Rightarrow> tsType \<Rightarrow> checker \<Rightarrow> (thrown \<times> checker) + checker"
  and visitParameters ::
    "library \<Rightarrow> NameTable \<Rightarrow> tsType option list \<Rightarrow> checker \<Rightarrow> (thrown \<times> checker) + (StaticType list \<times> checker)"
  where
  "visitT L names (TSTypeAnnotation node t) st = visitT L names t st"
| "visitT L names (TSTypeReference node name typeParameters) st =
     Inr (tsTypeReference names node name typeParameters st)"
| "visitT L names (TSArrayType node t) st =
     (case visitT L names t st of
        Inl x \<Rightarrow> Inl x
      | Inr st1 \<Rightarrow> Inr (st1\<lparr>result := ArrayType (result st1)\<rparr>))"
| "visitT L names (TSFunctionType node parameters r) st =
     (case visitParameters L names parameters st of
        Inl x \<Rightarrow> Inl x
      | Inr (params, st1) \<Rightarrow>
          (case r of
             None \<Rightarrow> Inr (st1\<lparr>result := FunctionType Any params\<rparr>)
           | Some t \<Rightarrow>
               (case visitT L names t st1 of
                  Inl x \<Rightarrow> Inl x
                | Inr st2 \<Rightarrow> Inr (st2\<lparr>result := FunctionType (result st2) params\<rparr>))))"
| "visitT L names (TSNumberKeyword node) st = Inr (st\<lparr>result := Integer\<rparr>)"
| "visitT L names (TSVoidKeyword node) st = Inr (st\<lparr>result := Void\<rparr>)"
| "visitT L names (TSBooleanKeyword node) st = Inr (st\<lparr>result := BooleanT\<rparr>)"
| "visitT L names (TSStringKeyword node) st = Inr (st\<lparr>result := StringT\<rparr>)"
| "visitT L names (TSObjectKeyword node) st = Inr (st\<lparr>result := objectType\<rparr>)"
| "visitT L names (TSAnyKeyword node) st = Inr (st\<lparr>result := Any\<rparr>)"
| "visitT L names (TSNullKeyword node) st = Inr (st\<lparr>result := Null\<rparr>)"
| "visitT L names (TSUndefinedKeyword node) st = Inr (st\<lparr>result := Null\<rparr>)"
| "visitT L names (TSUnionType node types) st =
     (let st0 = assert (length types = 2)
                  ''only optional types are supported -- the number of options must be 2'' node st
      in case types of
           [] \<Rightarrow> Inl (TypeError, st0)
         | t0 # rest \<Rightarrow>
             (case visitT L names t0 st0 of
                Inl x \<Rightarrow> Inl x
              | Inr st1 \<Rightarrow>
                  (case rest of
                     [] \<Rightarrow> Inl (TypeError, st1)
                   | t1 # others \<Rightarrow>
                       (case visitT L names t1 st1 of
                          Inl x \<Rightarrow> Inl x
                        | Inr st2 \<Rightarrow> Inr (unionOfOptions L node (result st1) (result st2) st2)))))"
| "visitParameters L names [] st = Inr ([], st)"
| "visitParameters L names (None # ps) st =
     (case visitParameters L names ps st of
        Inl x \<Rightarrow> Inl x
      | Inr (ts, st1) \<Rightarrow> Inr (Any # ts, st1))"
| "visitParameters L names (Some t # ps) st =
     (case visitT L names t st of
        Inl x \<Rightarrow> Inl x
      | Inr st1 \<Rightarrow>
          (case visitParameters L names ps st1 of
             Inl x \<Rightarrow> Inl x
           | Inr (ts, st2) \<Rightarrow> Inr (result st1 # ts, st2)))"

subsection \<open>A library modelled from the spec, and a fresh checker\<close>

text \<open>
  Modelled from the spec: the library that the examples below run with. The transpiler's
  own types.ts, classes.ts and c-runtime.ts are not part of the sources, so the relations
  follow section 3 of the spec: \<open>isSubtype\<close> is reflexive, primitives only subtype
  themselves, instance types subtype along the declared superclass chain (and the root
  object type), function types are contravariant in parameters and covariant in the
  return type, array types are invariant, and \<open>T\<close> is a subtype of \<open>optional T\<close>;
  \<open>isConsistent\<close> is true whenever \<open>any\<close> is involved on either side, or the two
  types are equal; \<open>actualElementType\<close> is \<open>any\<close> for optional and object element
  types, else the type itself. A class is an entry of a class table: its superclass, its
  property table (name, type, index), its method table and its unboxed cut-off.
\<close>

record classEntry =
  superclassOf :: StaticType
  propertyTable :: "(string \<times> StaticType \<times> nat) list"
  methodTable :: "(string \<times> (StaticType \<times> StaticType list) \<times> nat) list"
  unboxedCutoff :: "nat option"

type_synonym classTable = "(string \<times> classEntry) list"

fun superChain :: "classTable \<Rightarrow> nat \<Rightarrow> StaticType \<Rightarrow> StaticType list" where
  "superChain ct 0 t = []"
| "superChain ct (Suc fuel) t =
     (case t of
        InstanceType c \<Rightarrow>
          (case map_of ct c of
             None \<Rightarrow> [objectType]
           | Some e \<Rightarrow> superclassOf e # superChain ct fuel (superclassOf e))
      | _ \<Rightarrow> [])"

function spec_isSubtype :: "classTable \<Rightarrow> StaticType \<Rightarrow> StaticType \<Rightarrow> bool"
  and spec_isSubtypes :: "classTable \<Rightarrow> StaticType list \<Rightarrow> StaticType list \<Rightarrow> bool" where
  "spec_isSubtype ct s t =
     (if s = t then True
      else (case t of
              OptionalType e \<Rightarrow> s = e
            | objectType \<Rightarrow> (case s of InstanceType a \<Rightarrow> True | _ \<Rightarrow> False)
            | InstanceType b \<Rightarrow>
                (case s of InstanceType a \<Rightarrow> t \<in> set (superChain ct (Suc (length ct)) s) | _ \<Rightarrow> False)
            | FunctionType r2 ps2 \<Rightarrow>
                (case s of
                   FunctionType r1 ps1 \<Rightarrow>
                     length ps1 = length ps2 \<and> spec_isSubtypes ct ps2 ps1 \<and> spec_isSubtype ct r1 r2
                 | _ \<Rightarrow> False)
            | _ \<Rightarrow> False))"
| "spec_isSubtypes ct [] ts = True"
| "spec_isSubtypes ct (s # ss) [] = True"
| "spec_isSubtypes ct (s # ss) (t # ts) = (spec_isSubtype ct s t \<and> spec_isSubtypes ct ss ts)"
  by pat_completeness auto
termination
  by (relation "measure (case_sum (\<lambda>(ct, s, t). size s + size t)
                                  (\<lambda>(ct, ss, ts). size_list size ss + size_list size ts))")
     auto

definition spec_isConsistent :: "StaticType \<Rightarrow> StaticType \<Rightarrow> bool" where
  "spec_isConsistent s t = (s = Any \<or> t = Any \<or> s = t)"

definition spec_commonSuperType :: "classTable \<Rightarrow> StaticType \<Rightarrow> StaticType \<Rightarrow> StaticType option" where
  "spec_commonSuperType ct s t =
     (if spec_isSubtype ct s t then Some t
      else if spec_isSubtype ct t s then Some s
      else if isPrimitiveType s \<or> isPrimitiveType t then None
      else Some Any)"

definition spec_actualElementType :: "StaticType \<Rightarrow> StaticType" where
  "spec_actualElementType t =
     (case t of OptionalType e \<Rightarrow> Any | objectType \<Rightarrow> Any | InstanceType c \<Rightarrow> Any | _ \<Rightarrow> t)"

fun spec_typeToString :: "StaticType \<Rightarrow> string" where
  "spec_typeToString Integer = ''integer''"
| "spec_typeToString Float = ''float''"
| "spec_typeToString BooleanT = ''boolean''"
| "spec_typeToString StringT = ''string''"
| "spec_typeToString Void = ''void''"
| "spec_typeToString Null = ''undefined''"
| "spec_typeToString Any = ''any''"
| "spec_typeToString objectType = ''object''"
| "spec_typeToString (InstanceType c) = c"
| "spec_typeToString (FunctionType r ps) =
     ''('' @ concat (map (\<lambda>p. spec_typeToString p @ '','') ps) @ '') => '' @ spec_typeToString r"
| "spec_typeToString (ArrayType e) = spec_typeToString e @ ''[]''"
| "spec_typeToString (OptionalType e) = spec_typeToString e @ ''|undefined''"

definition classEntryOf :: "classTable \<Rightarrow> StaticType \<Rightarrow> classEntry option" where
  "classEntryOf ct t = (case t of InstanceType c \<Rightarrow> map_of ct c | _ \<Rightarrow> None)"

definition specLibrary :: "classTable \<Rightarrow> library" where
  "specLibrary ct =
     \<lparr>isSubtype = spec_isSubtype ct,
      isConsistent = spec_isConsistent,
      commonSuperType = spec_commonSuperType ct,
      typeToString = spec_typeToString,
      actualElementType = spec_actualElementType,
      ByteArrayClass = ''Uint8Array'',
      findProperty = (\<lambda>t key. case classEntryOf ct t of
                        None \<Rightarrow> None | Some e \<Rightarrow> map_of (propertyTable e) key),
      findMethod = (\<lambda>t key. case classEntryOf ct t of
                      None \<Rightarrow> None
                    | Some e \<Rightarrow> map_option (\<lambda>((r, ps), i). (FunctionType r ps, i)) (map_of (methodTable e) key)),
      findConstructor = (\<lambda>t. case classEntryOf ct t of
                           None \<Rightarrow> None
                         | Some e \<Rightarrow> map_option fst (map_of (methodTable e) ''constructor'')),
      unboxedProperties = (\<lambda>t. case classEntryOf ct t of None \<Rightarrow> None | Some e \<Rightarrow> unboxedCutoff e),
      superclass = (\<lambda>t. case classEntryOf ct t of None \<Rightarrow> objectType | Some e \<Rightarrow> superclassOf e),
      extendsObject = (\<lambda>t. case classEntryOf ct t of None \<Rightarrow> True | Some e \<Rightarrow> superclassOf e = objectType),
      forEachName = (\<lambda>t. case classEntryOf ct t of None \<Rightarrow> [] | Some e \<Rightarrow> map fst (propertyTable e))\<rparr>"

text \<open>\<^verbatim>\<open>new TypeChecker(maker, importer)\<close> as \<^verbatim>\<open>typecheck\<close> sets it up for the first
  pass, with nothing attached to any node yet; and the same checker set up for the second
  pass.\<close>

definition newTypeChecker :: checker where
  "newTypeChecker =
     \<lparr>errorLog = [], result = Any, firstPass = True, inExport = False,
      isConstructorChecker = False, hasSuperCall = False, toplevel = 0, properties = [],
      staticTypes = Map.empty, coercionFlags = (\<lambda>node. False)\<rparr>"

definition secondPassChecker :: checker where
  "secondPassChecker = newTypeChecker\<lparr>firstPass := False\<rparr>"

text \<open>Two classes for the examples: \<open>A\<close>, which extends the root object type and has
  no property, and \<open>B\<close>, which extends \<open>A\<close> and declares the properties \<open>p\<close> and
  \<open>q\<close>. Neither declares a constructor in the table.\<close>

definition exampleClasses :: classTable where
  "exampleClasses =
     [(''A'', \<lparr>superclassOf = objectType, propertyTable = [], methodTable = [], unboxedCutoff = Some 0\<rparr>),
      (''B'', \<lparr>superclassOf = InstanceType ''A'',
              propertyTable = [(''p'', Integer, 0), (''q'', StringT, 1)],
              methodTable = [], unboxedCutoff = Some 1\<rparr>)]"

text \<open>A global table with no name and no parent.\<close>

definition emptyGlobal :: NameTable where
  "emptyGlobal = GlobalNameTable [] None"

subsection \<open>Import declarations\<close>

text \<open>
  An import declaration holds its kind (\<^verbatim>\<open>node.importKind\<close>, which may be absent), the
  name of the source file (\<^verbatim>\<open>node.source.value\<close>) and its specifiers. The importer is
  a callback of the caller: for a file name it returns a name table, or throws an error
  log, a string or some other value.
\<close>

datatype importedName = ImportedIdentifier string | ImportedStringLiteral string

datatype importSpec =
    ImportSpecifier nat importedName
  | ImportDefaultSpecifier nat
  | ImportNamespaceSpecifier nat

fun specNode :: "importSpec \<Rightarrow> nat" where
  "specNode (ImportSpecifier node imported) = node"
| "specNode (ImportDefaultSpecifier node) = node"
| "specNode (ImportNamespaceSpecifier node) = node"

record ImportDeclaration =
  declNode :: nat
  importKind :: "string option"
  sourceValue :: string
  specifiers :: "importSpec list"

datatype importerResult =
    Returns NameTable
  | ThrowsErrorLog ErrorLog
  | ThrowsString string
  | ThrowsOther nat

definition callImporter ::
  "(string \<Rightarrow> importerResult) option \<Rightarrow> ImportDeclaration \<Rightarrow> checker
     \<Rightarrow> (thrown \<times> checker) + (NameTable option \<times> checker)" where
  "callImporter importer node st =
     (if importKind node = Some ''type'' then Inr (None, st)
      else if importKind node \<noteq> Some ''value''
        then Inr (None, assert False ''unsupported import declaration'' (declNode node) st)
      else (case importer of
              None \<Rightarrow> Inr (None, assert False ''import declaration is not available'' (declNode node) st)
            | Some f \<Rightarrow>
                (let sourceFile = sourceValue node
                 in case f sourceFile of
                      Returns table \<Rightarrow> Inr (Some table, st)
                    | ThrowsErrorLog e \<Rightarrow> Inr (None, st\<lparr>errorLog := add e sourceFile (errorLog st)\<rparr>)
                    | ThrowsString e \<Rightarrow> Inr (None, st\<lparr>errorLog := push e (declNode node) (errorLog st)\<rparr>)
                    | ThrowsOther e \<Rightarrow> Inl (Rethrown e, st))))"

text \<open>The body of the loop over \<^verbatim>\<open>node.specifiers\<close>, and the loop.\<close>

definition importSpecifier ::
  "NameTable \<Rightarrow> string \<Rightarrow> importSpec \<Rightarrow> NameTable \<Rightarrow> checker \<Rightarrow> NameTable \<times> checker" where
  "importSpecifier imported sourceFile spec env st =
     (case spec of
        ImportSpecifier node (ImportedIdentifier name) \<Rightarrow>
          (case lookup imported name of
             None \<Rightarrow>
               (env, assert False ([CHR 0x27] @ name @ [CHR 0x27] @ '' is not found in '' @ sourceFile) node st)
           | Some info \<Rightarrow>
               (importInfo name info env,
                assert (isExported info)
                  ([CHR 0x27] @ name @ [CHR 0x27] @ '' is declared but not exported in '' @ sourceFile)
                  node st))
      | _ \<Rightarrow> (env, assert False ''unsupported import declaration'' (specNode spec) st))"

fun importSpecifiers ::
  "NameTable \<Rightarrow> string \<Rightarrow> importSpec list \<Rightarrow> NameTable \<Rightarrow> checker \<Rightarrow> NameTable \<times> checker" where
  "importSpecifiers imported sourceFile [] env st = (env, st)"
| "importSpecifiers imported sourceFile (spec # specs) env st =
     (case importSpecifier imported sourceFile spec env st of
        (env1, st1) \<Rightarrow> importSpecifiers imported sourceFile specs env1 st1)"

definition importDeclaration ::
  "(string \<Rightarrow> importerResult) option \<Rightarrow> ImportDeclaration \<Rightarrow> NameTable \<Rightarrow> checker
     \<Rightarrow> (thrown \<times> checker) + (NameTable \<times> checker)" where
  "importDeclaration importer node env st =
     (if \<not> firstPass st then Inr (env, st)
      else (case callImporter importer node st of
              Inl x \<Rightarrow> Inl x
            | Inr (None, st1) \<Rightarrow> Inr (env, st1)
            | Inr (Some imported, st1) \<Rightarrow>
                if \<not> isGlobal env
                then Inr (env, assert False ''an import declaration must be at the top level'' (declNode node) st1)
                else Inr (importSpecifiers imported (sourceValue node) (specifiers node) env st1)))"

text \<open>For the examples: a module \<open>m\<close> that declares \<open>f\<close> and does not export it.\<close>

definition moduleTable :: NameTable where
  "moduleTable = GlobalNameTable [(''f'', makeInfo Integer)] None"

definition exampleImporter :: "string \<Rightarrow> importerResult" where
  "exampleImporter file =
     (if file = ''m'' then Returns moduleTable
      else if file = ''broken'' then ThrowsErrorLog [Pushed ''syntax error'' 0]
      else if file = ''missing'' then ThrowsString ''file not found''
      else ThrowsOther 0)"

definition importOf :: "string \<Rightarrow> ImportDeclaration" where
  "importOf file =
     \<lparr>declNode = 1, importKind = Some ''value'', sourceValue = file,
      specifiers = [ImportSpecifier 2 (ImportedIdentifier ''f'')]\<rparr>"

subsection \<open>Expressions\<close>

text \<open>
  The expression nodes that are embedded. Each holds its identity first, then the fields
  the checker reads: an operator is the string of the source, a numeric literal holds
  \<^verbatim>\<open>extra?.raw\<close>, a unary expression its \<open>prefix\<close> flag, a member expression its
  object, its property and its \<open>computed\<close> flag, a call its callee and its arguments.
  All of them are expressions for \<^verbatim>\<open>AST.isExpression\<close>.
\<close>

datatype expr =
    Identifier nat string
  | NullLiteral nat
  | StringLiteral nat
  | BooleanLiteral nat
  | NumericLiteral nat "string option"
  | UnaryExpression nat string bool expr
  | UpdateExpression nat string expr
  | BinaryExpression nat string expr expr
  | AssignmentExpression nat string expr expr
  | LogicalExpression nat string expr expr
  | ConditionalExpression nat expr expr expr
  | MemberExpression nat expr expr bool
  | CallExpression nat expr "expr list"
  | ThisExpression nat
  | Super nat

fun nodeOf :: "expr \<Rightarrow> nat" where
  "nodeOf (Identifier node name) = node"
| "nodeOf (NullLiteral node) = node"
| "nodeOf (StringLiteral node) = node"
| "nodeOf (BooleanLiteral node) = node"
| "nodeOf (NumericLiteral node raw) = node"
| "nodeOf (UnaryExpression node op pre arg) = node"
| "nodeOf (UpdateExpression node op arg) = node"
| "nodeOf (BinaryExpression node op l r) = node"
| "nodeOf (AssignmentExpression node op l r) = node"
| "nodeOf (LogicalExpression node op l r) = node"
| "nodeOf (ConditionalExpression node test cons alt) = node"
| "nodeOf (MemberExpression node obj prop computed) = node"
| "nodeOf (CallExpression node callee args) = node"
| "nodeOf (ThisExpression node) = node"
| "nodeOf (Super node) = node"

definition isSuper :: "expr \<Rightarrow> bool" where
  "isSuper e = (case e of Super node \<Rightarrow> True | _ \<Rightarrow> False)"

definition isThisExpression :: "expr \<Rightarrow> bool" where
  "isThisExpression e = (case e of ThisExpression node \<Rightarrow> True | _ \<Rightarrow> False)"

definition isInstanceType :: "StaticType \<Rightarrow> bool" where
  "isInstanceType t = (case t of InstanceType c \<Rightarrow> True | _ \<Rightarrow> False)"

definition isArrayType :: "StaticType \<Rightarrow> bool" where
  "isArrayType t = (case t of ArrayType e \<Rightarrow> True | _ \<Rightarrow> False)"

definition identifierExpression :: "NameTable \<Rightarrow> nat \<Rightarrow> string \<Rightarrow> checker \<Rightarrow> checker" where
  "identifierExpression names node name st =
     (if name = ''undefined'' then addStaticType node Null (st\<lparr>result := Null\<rparr>)
      else (case lookup names name of
              Some nameInfo \<Rightarrow>
                (let st1 = assert (\<not> isTypeName nameInfo) (''bad use of type name: '' @ name) node st
                 in if \<not> isTypeName nameInfo
                    then addStaticType node (type nameInfo) (st1\<lparr>result := type nameInfo\<rparr>)
                    else addStaticType node Any (st1\<lparr>result := Any\<rparr>))
            | None \<Rightarrow>
                (let st1 = assert (firstPass st) (''unknown name: '' @ name) node st
                 in addStaticType node Any (st1\<lparr>result := Any\<rparr>))))"

definition nullLiteral :: "nat \<Rightarrow> checker \<Rightarrow> checker" where
  "nullLiteral node st = addStaticType node Null (st\<lparr>result := Null\<rparr>)"

definition stringLiteral :: "nat \<Rightarrow> checker \<Rightarrow> checker" where
  "stringLiteral node st = addStaticType node StringT (st\<lparr>result := StringT\<rparr>)"

definition booleanLiteral :: "nat \<Rightarrow> checker \<Rightarrow> checker" where
  "booleanLiteral node st = addStaticType node BooleanT (st\<lparr>result := BooleanT\<rparr>)"

definition invalidOperandMessage :: "library \<Rightarrow> string \<Rightarrow> StaticType \<Rightarrow> string" where
  "invalidOperandMessage L op t1 = ''invalid operand to '' @ op @ '' ('' @ typeToString L t1 @ '')''"

definition invalidOperandsMessage :: "library \<Rightarrow> string \<Rightarrow> StaticType \<Rightarrow> StaticType \<Rightarrow> string" where
  "invalidOperandsMessage L op t1 t2 =
     ''invalid operands to '' @ op @ '' ('' @ typeToString L t1 @ '' and '' @ typeToString L t2 @ '')''"

definition isConsistentOnFirstPass :: "checker \<Rightarrow> StaticType \<Rightarrow> StaticType \<Rightarrow> bool" where
  "isConsistentOnFirstPass st t1 t2 =
     (if firstPass st then (t1 = Any \<and> isArrayType t2) \<or> (isArrayType t1 \<and> t2 = Any) else False)"

definition assertLvalue :: "expr \<Rightarrow> NameTable \<Rightarrow> checker \<Rightarrow> checker" where
  "assertLvalue node table st =
     (case node of
        Identifier n name \<Rightarrow>
          (case lookup table name of
             Some info \<Rightarrow>
               assert (\<not> isFunction info) ''assignment to top-level function'' n
                 (assert (\<not> isConst info) ''assignment to constant variable'' n st)
           | None \<Rightarrow> st)
      | MemberExpression n obj prop computed \<Rightarrow> st
      | _ \<Rightarrow> assert False ''invalid left-hand side in assignment'' (nodeOf node) st)"

text \<open>\<^verbatim>\<open>unaryExpression\<close> after the visit of the argument; \<open>t\<close> is the result of
  that visit. In the branch of \<open>typeof\<close> the source calls the \<^verbatim>\<open>addStaticType\<close> of
  names.ts, which does not look at the pass.\<close>

definition unaryOperator :: "library \<Rightarrow> nat \<Rightarrow> string \<Rightarrow> nat \<Rightarrow> StaticType \<Rightarrow> checker \<Rightarrow> checker" where
  "unaryOperator L node op argument t st =
     (let st1 = addCoercionIfAny argument t st
      in if op = ''-'' \<or> op = ''+''
         then assert (isNumeric t \<or> t = Any) (invalidOperandMessage L op t) node st1
         else if op = ''!''
         then (addCoercionForBoolean argument t st1)\<lparr>result := BooleanT\<rparr>
         else if op = ''~''
         then (assert (t = Integer \<or> t = Any) (invalidOperandMessage L op t) node st1)\<lparr>result := Integer\<rparr>
         else if op = ''typeof''
         then (names_addStaticType argument t st1)\<lparr>result := StringT\<rparr>
         else assert False (''not supported operator '' @ op) node st1)"

definition updateOperator :: "library \<Rightarrow> nat \<Rightarrow> string \<Rightarrow> nat \<Rightarrow> StaticType \<Rightarrow> checker \<Rightarrow> checker" where
  "updateOperator L node op argument t st =
     addCoercion argument t (assert (isNumeric t \<or> t = Any) (invalidOperandMessage L op t) node st)"

text \<open>\<^verbatim>\<open>binaryExpression\<close> after the visits of both operands: \<open>left_type\<close> and
  \<open>right_type\<close> are the results of the two visits, \<open>left\<close> and \<open>right\<close> the operand
  nodes.\<close>

definition binaryOperator ::
  "library \<Rightarrow> nat \<Rightarrow> string \<Rightarrow> nat \<Rightarrow> StaticType \<Rightarrow> nat \<Rightarrow> StaticType \<Rightarrow> checker \<Rightarrow> checker" where
  "binaryOperator L node op left left_type right right_type st =
     (if op = ''=='' \<or> op = ''!='' \<or> op = ''==='' \<or> op = ''!==''
      then (let st1 =
                 (if left_type = Any \<or> right_type = Any
                  then addCoercion right right_type (addCoercion left left_type st)
                  else if left_type = BooleanT \<or> right_type = BooleanT
                          \<or> left_type = StringT \<or> right_type = StringT
                  then (let typename = (if left_type = BooleanT \<or> right_type = BooleanT
                                        then ''boolean'' else ''string'');
                            st0 = (if left_type \<noteq> right_type
                                   then assert False (''a '' @ typename @ '' must be compared with a '' @ typename) node st
                                   else st)
                        in addCoercion right right_type (addCoercion left left_type st0))
                  else assert (isSubtype L left_type right_type \<or> isSubtype L right_type left_type)
                         (invalidOperandsMessage L op left_type right_type) node st)
            in st1\<lparr>result := BooleanT\<rparr>)
      else if op = ''<'' \<or> op = ''<='' \<or> op = ''>'' \<or> op = ''>=''
      then (let st1 =
                 (if (left_type = Any \<or> right_type = Any) \<or> (left_type = StringT \<and> right_type = StringT)
                  then addCoercion right right_type (addCoercion left left_type st)
                  else assert (isNumeric left_type \<and> isNumeric right_type)
                         (invalidOperandsMessage L op left_type right_type) node st)
            in st1\<lparr>result := BooleanT\<rparr>)
      else if op = ''+'' \<or> op = ''-'' \<or> op = ''*'' \<or> op = ''/'' \<or> op = ''**''
      then (let st1 = assert ((isNumeric left_type \<or> left_type = Any) \<and> (isNumeric right_type \<or> right_type = Any))
                        (invalidOperandsMessage L op left_type right_type) node st
            in if left_type = Any \<or> right_type = Any
               then (addCoercion right right_type (addCoercion left left_type st1))\<lparr>result := Any\<rparr>
               else if left_type = Float \<or> right_type = Float
               then (if op = ''**'' then addStaticType node Float st1 else st1)\<lparr>result := Float\<rparr>
               else (if op = ''**'' then addStaticType node Integer st1 else st1)\<lparr>result := Integer\<rparr>)
      else if op = ''%''
      then (let st1 = assert ((left_type = Integer \<or> left_type = Any) \<and> (right_type = Integer \<or> right_type = Any))
                        ''invalid operands to %.  They must be integer or any'' node st
            in if left_type = Any \<or> right_type = Any
               then (addCoercion right right_type (addCoercion left left_type st1))\<lparr>result := Any\<rparr>
               else st1\<lparr>result := Integer\<rparr>)
      else if op = ''|'' \<or> op = ''^'' \<or> op = ''&'' \<or> op = ''<<'' \<or> op = ''>>'' \<or> op = ''>>>''
      then (assert (left_type = Integer \<and> right_type = Integer)
              (invalidOperandsMessage L op left_type right_type) node st)\<lparr>result := Integer\<rparr>
      else (assert False (''not supported operator '' @ [CHR 0x27] @ op @ [CHR 0x27]) node st)\<lparr>result := BooleanT\<rparr>)"

text \<open>\<^verbatim>\<open>instanceofExpression\<close> after the visit of the left operand (the right operand
  is not visited).\<close>

definition instanceofOperator :: "NameTable \<Rightarrow> nat \<Rightarrow> StaticType \<Rightarrow> expr \<Rightarrow> checker \<Rightarrow> checker" where
  "instanceofOperator names left leftType right st =
     (let st1 = (if isPrimitiveType leftType
                 then assert False ''primitive types cannot be used in instanceof'' left st else st)
      in case right of
           Identifier r typeName \<Rightarrow>
             (let info = lookup names typeName;
                  known = (case info of Some i \<Rightarrow> isTypeName i \<and> isInstanceType (type i) | None \<Rightarrow> False);
                  t = (if known then (case info of Some i \<Rightarrow> type i | None \<Rightarrow> Any)
                       else if typeName = ''string'' then StringT
                       else if typeName = ''Array'' then ArrayType Any
                       else Any);
                  st2 = (if known \<or> typeName = ''string'' \<or> typeName = ''Array'' then st1
                         else assert False (''invalid type name: '' @ typeName) r st1)
              in (addStaticType r t st2)\<lparr>result := BooleanT\<rparr>)
         | _ \<Rightarrow> assertSyntax False (nodeOf right) st1)"

text \<open>\<^verbatim>\<open>assignmentExpression\<close> for a left-hand side that is not a member expression,
  after \<^verbatim>\<open>assertLvalue\<close> and the visits of both sides.\<close>

definition assignmentOperator ::
  "library \<Rightarrow> nat \<Rightarrow> string \<Rightarrow> nat \<Rightarrow> StaticType \<Rightarrow> nat \<Rightarrow> StaticType \<Rightarrow> checker \<Rightarrow> checker" where
  "assignmentOperator L node op left left_type right right_type st =
     (let st1 =
        (if op = ''=''
         then (if isConsistent L right_type left_type \<or> isConsistentOnFirstPass st right_type left_type
               then addCoercion right right_type (addCoercion left left_type st)
               else assert (isSubtype L right_type left_type)
                      (''Type '' @ [CHR 0x27] @ typeToString L right_type @ [CHR 0x27]
                         @ '' is not assignable to type '' @ [CHR 0x27] @ typeToString L left_type @ [CHR 0x27])
                      node st)
         else if op = ''+='' \<or> op = ''-='' \<or> op = ''*='' \<or> op = ''/=''
         then (let st0 = assert ((isNumeric left_type \<or> left_type = Any) \<and> (isNumeric right_type \<or> right_type = Any))
                           (invalidOperandsMessage L op left_type right_type) node st
               in if left_type = Any \<or> right_type = Any
                  then addCoercion right right_type (addCoercion left left_type st0) else st0)
         else if op = ''%=''
         then (let st0 = assert ((left_type = Integer \<or> left_type = Any) \<and> (right_type = Integer \<or> right_type = Any))
                           ''invalid operands to %=.  They must be integer or any'' node st
               in if left_type = Any \<or> right_type = Any
                  then addCoercion right right_type (addCoercion left left_type st0) else st0)
         else if op = ''|='' \<or> op = ''^='' \<or> op = ''&='' \<or> op = ''%='' \<or> op = ''<<='' \<or> op = ''>>=''
         then assert (left_type = Integer \<and> right_type = Integer)
                (invalidOperandsMessage L op left_type right_type) node st
         else assert False (''not supported operator '' @ [CHR 0x27] @ op @ [CHR 0x27]) node st)
      in st1\<lparr>result := left_type\<rparr>)"

text \<open>\<^verbatim>\<open>memberAssignmentExpression\<close> after \<^verbatim>\<open>checkMemberExpr\<close> has returned
  \<open>checked\<close> with the result \<open>elementType\<close> and the right-hand side has been visited
  with the result \<open>rightType\<close>.\<close>

definition memberAssignmentOperator ::
  "library \<Rightarrow> nat \<Rightarrow> string \<Rightarrow> nat \<Rightarrow> bool \<Rightarrow> bool \<Rightarrow> StaticType \<Rightarrow> nat \<Rightarrow> StaticType \<Rightarrow> checker \<Rightarrow> checker" where
  "memberAssignmentOperator L node op left computed checked elementType right rightType st =
     (let actualType =
            (if computed then actualElementType L elementType
             else if checked then (if isPrimitiveType elementType then Any else elementType)
             else elementType);
          st1 =
            (if op = ''=''
             then (if isConsistent L rightType elementType
                   then addCoercion right rightType (addCoercion left actualType st)
                   else addCoercion right rightType (addCoercion left actualType
                          (assert (isSubtype L rightType elementType)
                             (''Type '' @ [CHR 0x27] @ typeToString L rightType @ [CHR 0x27]
                                @ '' is not assignable to element type '' @ [CHR 0x27]
                                @ typeToString L elementType @ [CHR 0x27])
                             node st)))
             else if op = ''+='' \<or> op = ''-='' \<or> op = ''*='' \<or> op = ''/=''
             then addCoercion right rightType (addCoercion left actualType
                    (assert ((isNumeric elementType \<or> elementType = Any) \<and> (isNumeric rightType \<or> rightType = Any))
                       (invalidOperandsMessage L op elementType rightType) node st))
             else assert False (''not supported operator '' @ [CHR 0x27] @ op @ [CHR 0x27]) node st)
      in st1\<lparr>result := actualType\<rparr>)"

text \<open>What \<^verbatim>\<open>ConstructorChecker.memberAssignmentExpression\<close> does after the call of the
  method it overrides.\<close>

definition markInitialized :: "string \<Rightarrow> expr \<Rightarrow> expr \<Rightarrow> bool \<Rightarrow> checker \<Rightarrow> checker" where
  "markInitialized op obj prop computed st =
     (if isConstructorChecker st \<and> toplevel st = 1 \<and> op = ''='' \<and> \<not> computed \<and> isThisExpression obj
      then (case prop of
              Identifier p name \<Rightarrow> st\<lparr>properties := setProperty name True (properties st)\<rparr>
            | _ \<Rightarrow> st)
      else st)"

definition logicalOperator :: "nat \<Rightarrow> string \<Rightarrow> nat \<Rightarrow> StaticType \<Rightarrow> nat \<Rightarrow> StaticType \<Rightarrow> checker \<Rightarrow> checker" where
  "logicalOperator node op left left_type right right_type st =
     (if op = ''||'' \<or> op = ''&&''
      then (addCoercionForBoolean right right_type (addCoercionForBoolean left left_type st))\<lparr>result := BooleanT\<rparr>
      else assert False (''not supported operator '' @ [CHR 0x27] @ op @ [CHR 0x27]) node st)"

definition conditionalResult :: "library \<Rightarrow> nat \<Rightarrow> StaticType \<Rightarrow> StaticType \<Rightarrow> checker \<Rightarrow> checker" where
  "conditionalResult L node then_type else_type st =
     (case commonSuperType L then_type else_type of
        None \<Rightarrow> (assert False ''no common super type'' node st)\<lparr>result := then_type\<rparr>
      | Some result_type \<Rightarrow> st\<lparr>result := result_type\<rparr>)"

text \<open>The overriding handlers of \<^verbatim>\<open>ConstructorChecker\<close> for nested constructs:
  \<^verbatim>\<open>this.toplevel++\<close> before the call of the overridden handler and
  \<^verbatim>\<open>this.toplevel--\<close> after it.\<close>

definition enterNested :: "checker \<Rightarrow> checker" where
  "enterNested st = (if isConstructorChecker st then st\<lparr>toplevel := toplevel st + 1\<rparr> else st)"

definition leaveNested :: "checker \<Rightarrow> checker" where
  "leaveNested st = (if isConstructorChecker st then st\<lparr>toplevel := toplevel st - 1\<rparr> else st)"

text \<open>What \<^verbatim>\<open>ConstructorChecker.superConstructorCall\<close> does before the call of the
  method it overrides.\<close>

definition superCallAtTopLevel :: "nat \<Rightarrow> checker \<Rightarrow> checker" where
  "superCallAtTopLevel node st =
     (if isConstructorChecker st \<and> toplevel st = 1
      then (assert (\<not> hasSuperCall st) ''cannot call super() here'' node st)\<lparr>hasSuperCall := True\<rparr>
      else st)"

text \<open>\<^verbatim>\<open>callExpressionArg\<close> after the visit of the argument.\<close>

definition checkArgument :: "library \<Rightarrow> nat \<Rightarrow> StaticType \<Rightarrow> StaticType \<Rightarrow> checker \<Rightarrow> checker" where
  "checkArgument L arg argType paramType st =
     (if isConsistent L argType paramType \<or> isConsistentOnFirstPass st argType paramType
      then addCoercion arg argType st
      else assert (isSubtype L argType paramType)
             (''passing an incompatible argument ('' @ typeToString L argType @ '' to ''
                @ typeToString L paramType @ '')'')
             arg st)"

definition thisExpression :: "NameTable \<Rightarrow> nat \<Rightarrow> checker \<Rightarrow> checker" where
  "thisExpression names node st =
     (case lookup names ''this'' of
        Some nameInfo \<Rightarrow>
          (assert (isInstanceType (type nameInfo))
             (''the type of '' @ [CHR 0x27] @ ''this'' @ [CHR 0x27] @ '' is broken'') node st)
            \<lparr>result := type nameInfo\<rparr>
      | None \<Rightarrow>
          (assert (firstPass st)
             ([CHR 0x27] @ ''this'' @ [CHR 0x27] @ '' is not available here'') node st)
            \<lparr>result := Any\<rparr>)"

definition superExpression :: "library \<Rightarrow> NameTable \<Rightarrow> nat \<Rightarrow> checker \<Rightarrow> checker" where
  "superExpression L names node st =
     (case lookup names ''this'' of
        Some nameInfo \<Rightarrow>
          if isInstanceType (type nameInfo) then st\<lparr>result := superclass L (type nameInfo)\<rparr>
          else (assert (firstPass st)
                  ([CHR 0x27] @ ''super'' @ [CHR 0x27] @ '' is not available here'') node st)
                 \<lparr>result := Any\<rparr>
      | None \<Rightarrow>
          (assert (firstPass st)
             ([CHR 0x27] @ ''super'' @ [CHR 0x27] @ '' is not available here'') node st)
            \<lparr>result := Any\<rparr>)"

text \<open>\<^verbatim>\<open>checkMemberExpr\<close> at an element access \<open>a[b]\<close>, after the visits of the
  index and of the object: \<open>result st\<close> is the type of the object.\<close>

definition elementAccess :: "library \<Rightarrow> nat \<Rightarrow> nat \<Rightarrow> checker \<Rightarrow> bool \<times> checker" where
  "elementAccess L node obj st =
     (let st6 = addStaticType obj (result st) st
      in case result st6 of
           ArrayType elementType \<Rightarrow>
             (True, addStaticType node elementType (st6\<lparr>result := elementType\<rparr>))
         | _ \<Rightarrow>
             if result st6 = InstanceType (ByteArrayClass L)
             then (True, (addStaticType node Integer (addStaticType obj (result st6) st6))
                           \<lparr>result := Integer\<rparr>)
             else (let st7 = assert (firstPass st6 \<or> result st6 = Any)
                               ''an element access to a non-array'' obj st6;
                       st8 = addStaticType node Any (st7\<lparr>result := Any\<rparr>)
                   in (\<not> firstPass st8, st8)))"

text \<open>\<^verbatim>\<open>checkMemberExpr\<close> at a property access \<open>a.b\<close> whose property is an
  identifier, after the visit of the object: \<open>result st\<close> is the type of the object.\<close>

definition propertyAccess ::
  "library \<Rightarrow> nat \<Rightarrow> nat \<Rightarrow> string \<Rightarrow> bool \<Rightarrow> checker \<Rightarrow> bool \<times> checker" where
  "propertyAccess L obj propNode propertyName readonly st =
     (let t = result st;
          st2 = addStaticType obj t st;
          unknown = (True, assert False (''unknown property name: '' @ propertyName) propNode
                             (st2\<lparr>result := Any\<rparr>))
      in case t of
           InstanceType c \<Rightarrow>
             (case findProperty L t propertyName of
                Some typeAndIndex \<Rightarrow>
                  ((case unboxedProperties L t of
                      None \<Rightarrow> True | Some unboxed \<Rightarrow> unboxed \<le> snd typeAndIndex),
                   st2\<lparr>result := fst typeAndIndex\<rparr>)
              | None \<Rightarrow>
                  if propertyName = lengthMethod \<and> c = ByteArrayClass L
                  then (False, (assert readonly ''cannot change .length'' propNode st2)
                                 \<lparr>result := Integer\<rparr>)
                  else if firstPass st2 then (True, st2\<lparr>result := Any\<rparr>)
                  else unknown)
         | ArrayType elementType \<Rightarrow>
             if propertyName = lengthMethod
             then (False, (assert readonly ''cannot change .length'' propNode st2)
                            \<lparr>result := Integer\<rparr>)
             else unknown
         | Any \<Rightarrow> (True, st2\<lparr>result := Any\<rparr>)
         | _ \<Rightarrow> unknown)"

text \<open>\<^verbatim>\<open>checkMethodExpr\<close> at \<open>a.b\<close> whose property is an identifier, after the visit
  of the object.\<close>

definition methodAccess :: "library \<Rightarrow> nat \<Rightarrow> string \<Rightarrow> checker \<Rightarrow> bool \<times> checker" where
  "methodAccess L obj propertyName st =
     (let t = result st;
          st2 = addStaticType obj t st
      in case t of
           InstanceType c \<Rightarrow>
             (case findMethod L t propertyName of
                Some typeAndIndex \<Rightarrow> (True, st2\<lparr>result := fst typeAndIndex\<rparr>)
              | None \<Rightarrow> (firstPass st2, st2\<lparr>result := Any\<rparr>))
         | ArrayType elementType \<Rightarrow> (False, st2)
         | _ \<Rightarrow> (firstPass st2, st2\<lparr>result := Any\<rparr>))"

definition isMemberExpression :: "expr \<Rightarrow> bool" where
  "isMemberExpression e = (case e of MemberExpression node obj prop computed \<Rightarrow> True | _ \<Rightarrow> False)"

text \<open>
  The visit of an expression. \<^verbatim>\<open>this.visit(node, names)\<close> dispatches on the kind of
  the node to the handler of that name; a handler that a \<^verbatim>\<open>ConstructorChecker\<close>
  overrides does what the override does when the receiver is one. \<open>checkMemberExpr\<close>
  and \<open>checkMethodExpr\<close> take the fields of the member expression (its node, object,
  property and \<open>computed\<close> flag) and return the boolean of the source with the checker;
  \<open>superConstructorCall\<close> is the method of \<^verbatim>\<open>TypeChecker\<close>, which the call handler
  reaches through the override of the validator (\<open>superCallAtTopLevel\<close>);
  \<open>callExpressionArgs\<close> is the loop over the arguments of a call, each checked by
  \<^verbatim>\<open>callExpressionArg\<close> against the parameter type at the same index.
\<close>

function visitE :: "library \<Rightarrow> NameTable \<Rightarrow> expr \<Rightarrow> checker \<Rightarrow> checker"
  and checkMemberExpr ::
    "library \<Rightarrow> NameTable \<Rightarrow> nat \<Rightarrow> expr \<Rightarrow> expr \<Rightarrow> bool \<Rightarrow> bool \<Rightarrow> checker \<Rightarrow> bool \<times> checker"
  and checkMethodExpr ::
    "library \<Rightarrow> NameTable \<Rightarrow> expr \<Rightarrow> expr \<Rightarrow> bool \<Rightarrow> checker \<Rightarrow> bool \<times> checker"
  and superConstructorCall ::
    "library \<Rightarrow> NameTable \<Rightarrow> StaticType \<Rightarrow> nat \<Rightarrow> expr \<Rightarrow> expr list \<Rightarrow> checker \<Rightarrow> checker"
  and callExpressionArgs ::
    "library \<Rightarrow> NameTable \<Rightarrow> expr list \<Rightarrow> StaticType list \<Rightarrow> checker \<Rightarrow> checker"
  where
  "visitE L names (Identifier node name) st = identifierExpression names node name st"
| "visitE L names (NullLiteral node) st = nullLiteral node st"
| "visitE L names (StringLiteral node) st = stringLiteral node st"
| "visitE L names (BooleanLiteral node) st = booleanLiteral node st"
| "visitE L names (NumericLiteral node raw) st = numericLiteral node raw st"
| "visitE L names (UnaryExpression node op pre argument) st =
     (let st1 = assert pre ''only prefixed unary operator is supported'' node st;
          st2 = visitE L names argument st1
      in unaryOperator L node op (nodeOf argument) (result st2) st2)"
| "visitE L names (UpdateExpression node op argument) st =
     (let st1 = assertLvalue argument names st;
          st2 = visitE L names argument st1
      in updateOperator L node op (nodeOf argument) (result st2) st2)"
| "visitE L names (BinaryExpression node op left right) st =
     (if op = ''instanceof''
      then (let st1 = visitE L names left st
            in instanceofOperator names (nodeOf left) (result st1) right st1)
      else (let st1 = visitE L names left st;
                st2 = visitE L names right st1
            in binaryOperator L node op (nodeOf left) (result st1) (nodeOf right) (result st2) st2))"
| "visitE L names (AssignmentExpression node op left right) st =
     (case left of
        MemberExpression leftNode obj prop computed \<Rightarrow>
          (let st0 = assertLvalue left names st;
               (checked, st1) = checkMemberExpr L names leftNode obj prop computed False st0;
               st4 = (if \<not> checked \<and> computed
                      then (visitE L names right st1)\<lparr>result := Any\<rparr>
                      else (let st2 = visitE L names right st1
                            in memberAssignmentOperator L node op leftNode computed checked
                                 (result st1) (nodeOf right) (result st2) st2))
           in markInitialized op obj prop computed st4)
      | _ \<Rightarrow>
          (let st1 = assertLvalue left names st;
               st2 = visitE L names left st1;
               st3 = visitE L names right st2
           in assignmentOperator L node op (nodeOf left) (result st2) (nodeOf right) (result st3) st3))"
| "visitE L names (LogicalExpression node op left right) st =
     (let st1 = visitE L names left st;
          st2 = visitE L names right st1
      in logicalOperator node op (nodeOf left) (result st1) (nodeOf right) (result st2) st2)"
| "visitE L names (ConditionalExpression node test consequent alternate) st =
     (let st0 = enterNested st;
          st1 = visitE L names test st0;
          st2 = addCoercionForBoolean (nodeOf test) (result st1) st1;
          st3 = visitE L names consequent st2;
          st4 = visitE L names alternate st3
      in leaveNested (conditionalResult L node (result st3) (result st4) st4))"
| "visitE L names (MemberExpression node obj prop computed) st =
     snd (checkMemberExpr L names node obj prop computed True st)"
| "visitE L names (CallExpression node callee arguments) st =
     (let st1 = (case callee of
                   MemberExpression calleeNode obj prop computed \<Rightarrow>
                     (let (isMethod, st0) = checkMethodExpr L names obj prop computed st
                      in if isMethod then st0 else visitE L names callee st0)
                 | _ \<Rightarrow> visitE L names callee st)
      in if isSuper callee
         then superConstructorCall L names (result st1) node callee arguments (superCallAtTopLevel node st1)
         else (case result st1 of
                 FunctionType returnType paramTypes \<Rightarrow>
                   (let st2 = (if length arguments \<noteq> length paramTypes
                               then assert False ''wrong number of arguments'' node st1
                               else callExpressionArgs L names arguments paramTypes st1)
                    in (addStaticType (nodeOf callee) (FunctionType returnType paramTypes) st2)
                         \<lparr>result := returnType\<rparr>)
               | _ \<Rightarrow>
                   (assert (firstPass st1) ''the callee is not a function'' (nodeOf callee) st1)
                     \<lparr>result := Any\<rparr>))"
| "visitE L names (ThisExpression node) st = thisExpression names node st"
| "visitE L names (Super node) st = superExpression L names node st"
| "checkMemberExpr L names node obj prop computed readonly st =
     (let st0 = assert True ''not supported object'' (nodeOf obj) st
      in if computed
         then (let st1 = assert True ''a wrong index expression'' (nodeOf prop) st0;
                   st2 = visitE L names prop st1;
                   st3 = assert (firstPass st2 \<or> result st2 = Integer \<or> result st2 = Any)
                           ''an array index must be an integer'' (nodeOf prop) st2;
                   st4 = addCoercionIfAny (nodeOf prop) (result st3) st3;
                   st5 = visitE L names obj st4
               in elementAccess L node (nodeOf obj) st5)
         else (case prop of
                 Identifier propNode propertyName \<Rightarrow>
                   propertyAccess L (nodeOf obj) propNode propertyName readonly (visitE L names obj st0)
               | _ \<Rightarrow> (True, assert False ''a wrong property name'' (nodeOf prop) st0)))"
| "checkMethodExpr L names obj prop computed st =
     (if computed then (False, st)
      else (case prop of
              Identifier propNode propertyName \<Rightarrow>
                methodAccess L (nodeOf obj) propertyName (visitE L names obj st)
            | _ \<Rightarrow> (False, st)))"
| "superConstructorCall L names t node callee arguments st =
     (case t of
        InstanceType c \<Rightarrow>
          (let consType = (case findConstructor L t of Some cons \<Rightarrow> cons | None \<Rightarrow> (Void, []));
               st1 = (if length arguments \<noteq> length (snd consType)
                      then assert False ''wrong number of arguments'' node st
                      else callExpressionArgs L names arguments (snd consType) st)
           in (addStaticType (nodeOf callee) (FunctionType (fst consType) (snd consType)) st1)
                \<lparr>result := Void\<rparr>)
      | _ \<Rightarrow> assert False ''fatal: bad super'' node st)"
| "callExpressionArgs L names [] paramTypes st = st"
| "callExpressionArgs L names (arg # args) paramTypes st =
     (case paramTypes of
        [] \<Rightarrow> st
      | paramType # rest \<Rightarrow>
          (let st1 = visitE L names arg st
           in callExpressionArgs L names args rest
                (checkArgument L (nodeOf arg) (result st1) paramType st1)))"
  by pat_completeness auto
termination
  by (relation "measure (\<lambda>x. case x of
        Inl (Inl (L, names, e, st)) \<Rightarrow> 4 * size e
      | Inl (Inr (L, names, node, obj, prop, computed, readonly, st)) \<Rightarrow> 4 * (size obj + size prop) + 1
      | Inr (Inl (L, names, obj, prop, computed, st)) \<Rightarrow> 4 * (size obj + size prop) + 1
      | Inr (Inr (Inl (L, names, t, node, callee, args, st))) \<Rightarrow> 4 * size_list size args + 2
      | Inr (Inr (Inr (L, names, args, paramTypes, st))) \<Rightarrow> 4 * size_list size args + 1)")
     auto

text \<open>The equations of the visit are unfolded where a proof asks for them.\<close>

declare visitE.simps [simp del] checkMemberExpr.simps [simp del] checkMethodExpr.simps [simp del]
  superConstructorCall.simps [simp del] callExpressionArgs.simps [simp del]

subsection \<open>Statements\<close>

text \<open>
  The declarator of a variable declaration holds its node, the name of the identifier it
  declares, the type annotation of that identifier, if any, and the initializer, if any.
  The statements that are embedded: loops, conditionals, blocks (with the number of
  their directives), expression statements, variable declarations (with their kind),
  and the empty, break and continue statements (with whether they have a label). Return
  statements, function and class declarations are not embedded, and no expression of
  the model is an arrow function, so \<^verbatim>\<open>isConstFunctionDeclaration\<close> is always false.
  The name table that the source attaches to a block or a loop in the second pass
  (\<^verbatim>\<open>addNameTable\<close>) is for the code generator and is left out of the state.
\<close>

datatype declarator = VariableDeclarator nat string "tsType option" "expr option"

datatype forInit = InitExpression expr | InitDeclaration nat string "declarator list"

datatype stmt =
    WhileStatement nat expr stmt
  | IfStatement nat expr stmt "stmt option"
  | ForStatement nat "forInit option" "expr option" "expr option" stmt
  | ExpressionStatement nat expr
  | BlockStatement nat nat "stmt list"
  | EmptyStatement nat
  | BreakStatement nat bool
  | ContinueStatement nat bool
  | VariableDeclaration nat string "declarator list"

definition isTSTypeAnnotation :: "tsType \<Rightarrow> bool" where
  "isTSTypeAnnotation t = (case t of TSTypeAnnotation node a \<Rightarrow> True | _ \<Rightarrow> False)"

fun tsNode :: "tsType \<Rightarrow> nat" where
  "tsNode (TSTypeAnnotation node t) = node"
| "tsNode (TSTypeReference node name typeParameters) = node"
| "tsNode (TSArrayType node t) = node"
| "tsNode (TSFunctionType node parameters r) = node"
| "tsNode (TSNumberKeyword node) = node"
| "tsNode (TSVoidKeyword node) = node"
| "tsNode (TSBooleanKeyword node) = node"
| "tsNode (TSStringKeyword node) = node"
| "tsNode (TSObjectKeyword node) = node"
| "tsNode (TSAnyKeyword node) = node"
| "tsNode (TSNullKeyword node) = node"
| "tsNode (TSUndefinedKeyword node) = node"
| "tsNode (TSUnionType node types) = node"

text \<open>\<^verbatim>\<open>checkVariableDeclarator\<close> after the type annotation has been visited, if it had
  to be: \<open>varType\<close> is the type found so far, if any.\<close>

definition declareVariable ::
  "library \<Rightarrow> NameTable \<Rightarrow> nat \<Rightarrow> string \<Rightarrow> expr option \<Rightarrow> bool \<Rightarrow> bool \<Rightarrow> StaticType option
     \<Rightarrow> checker \<Rightarrow> NameTable \<times> checker" where
  "declareVariable L names node varName init isConstant alreadyDeclared varType st =
     (let (varType1, st1) =
            (case init of
               None \<Rightarrow> (varType, st)
             | Some e \<Rightarrow>
                 (let s1 = visitE L names e st;
                      s2 = assert (result s1 \<noteq> Void) ''void may not be an initial value'' (nodeOf e) s1
                  in case varType of
                       None \<Rightarrow> (Some (result s2), s2)
                     | Some vt \<Rightarrow>
                         (varType,
                          if isConsistent L (result s2) vt then addCoercion (nodeOf e) (result s2) s2
                          else assert (isSubtype L (result s2) vt)
                                 (''Type '' @ [CHR 0x27] @ typeToString L (result s2) @ [CHR 0x27]
                                    @ '' is not assignable to type '' @ [CHR 0x27] @ typeToString L vt
                                    @ [CHR 0x27])
                                 node s2)));
          varType2 = (case varType1 of None \<Rightarrow> Any | Some vt \<Rightarrow> vt)
      in if \<not> alreadyDeclared
         then (let (success, names1) =
                     recordName varName varType2
                       (\<lambda>i. i\<lparr>isConst := isConstant, isExported := inExport st1\<rparr>) names
               in (names1,
                   assert success
                     (''Identifier '' @ [CHR 0x27] @ varName @ [CHR 0x27] @ '' has already been declared'')
                     node st1))
         else (names, st1))"

definition checkVariableDeclarator ::
  "library \<Rightarrow> NameTable \<Rightarrow> declarator \<Rightarrow> bool \<Rightarrow> checker \<Rightarrow> (thrown \<times> checker) + (NameTable \<times> checker)" where
  "checkVariableDeclarator L names decl isConstant st =
     (case decl of
        VariableDeclarator node varName typeAnno init \<Rightarrow>
          (let st0 = assert True ''invalid variable name'' node st;
               varType = (if \<not> firstPass st0 then map_option type (lookupInThis names varName) else None);
               alreadyDeclared = (varType \<noteq> None)
           in case (varType, typeAnno) of
                (None, Some anno) \<Rightarrow>
                  (case visitT L names anno (assertSyntax (isTSTypeAnnotation anno) (tsNode anno) st0) of
                     Inl x \<Rightarrow> Inl x
                   | Inr st1 \<Rightarrow>
                       Inr (declareVariable L names node varName init isConstant alreadyDeclared
                              (Some (result st1)) st1))
              | _ \<Rightarrow>
                  Inr (declareVariable L names node varName init isConstant alreadyDeclared varType st0)))"

fun checkDeclarators ::
  "library \<Rightarrow> NameTable \<Rightarrow> declarator list \<Rightarrow> bool \<Rightarrow> checker \<Rightarrow> (thrown \<times> checker) + (NameTable \<times> checker)" where
  "checkDeclarators L names [] isConstant st = Inr (names, st)"
| "checkDeclarators L names (decl # decls) isConstant st =
     (case checkVariableDeclarator L names decl isConstant st of
        Inl x \<Rightarrow> Inl x
      | Inr (names1, st1) \<Rightarrow> checkDeclarators L names1 decls isConstant st1)"

definition variableDeclaration ::
  "library \<Rightarrow> NameTable \<Rightarrow> nat \<Rightarrow> string \<Rightarrow> declarator list \<Rightarrow> checker
     \<Rightarrow> (thrown \<times> checker) + (NameTable \<times> checker)" where
  "variableDeclaration L names node kind declarations st =
     checkDeclarators L names declarations (kind = ''const'')
       (assert (kind = ''const'' \<or> kind = ''let'') ''only const and let are available'' node st)"

text \<open>
  The visit of a statement returns the name table it was given, as the statement left
  it (a declaration records a name in it), with the checker. A block and a \<open>for\<close>
  loop make a table of their own for what they contain, and the table they were given
  is unchanged. \<open>visitStatements\<close> is the loop over the statements of a block.
\<close>

fun visitS :: "library \<Rightarrow> NameTable \<Rightarrow> stmt \<Rightarrow> checker \<Rightarrow> (thrown \<times> checker) + (NameTable \<times> checker)"
  and visitStatements ::
    "library \<Rightarrow> NameTable \<Rightarrow> stmt list \<Rightarrow> checker \<Rightarrow> (thrown \<times> checker) + (NameTable \<times> checker)"
  where
  "visitS L names (WhileStatement node test body) st =
     (let st0 = enterNested st;
          st1 = visitE L names test st0;
          st2 = addCoercionForBoolean (nodeOf test) (result st1) st1
      in case visitS L names body st2 of
           Inl x \<Rightarrow> Inl x
         | Inr (names1, st3) \<Rightarrow> Inr (names1, leaveNested st3))"
| "visitS L names (IfStatement node test consequent alternate) st =
     (let st0 = enterNested st;
          st1 = visitE L names test st0;
          st2 = addCoercionForBoolean (nodeOf test) (result st1) st1
      in case visitS L names consequent st2 of
           Inl x \<Rightarrow> Inl x
         | Inr (names1, st3) \<Rightarrow>
             (case alternate of
                None \<Rightarrow> Inr (names1, leaveNested st3)
              | Some alt \<Rightarrow>
                  (case visitS L names1 alt st3 of
                     Inl x \<Rightarrow> Inl x
                   | Inr (names2, st4) \<Rightarrow> Inr (names2, leaveNested st4))))"
| "visitS L names (ForStatement node init test update body) st =
     (let st0 = enterNested st;
          block_names = block names
      in case (case init of
                 None \<Rightarrow> Inr (block_names, st0)
               | Some (InitExpression e) \<Rightarrow> Inr (block_names, visitE L block_names e st0)
               | Some (InitDeclaration n kind declarations) \<Rightarrow>
                   variableDeclaration L block_names n kind declarations st0) of
           Inl x \<Rightarrow> Inl x
         | Inr (names1, st1) \<Rightarrow>
             (let st2 = (case test of
                           None \<Rightarrow> st1
                         | Some t \<Rightarrow>
                             (let s = visitE L names1 t st1
                              in addCoercionForBoolean (nodeOf t) (result s) s));
                  st3 = (case update of None \<Rightarrow> st2 | Some u \<Rightarrow> visitE L names1 u st2)
              in case visitS L names1 body st3 of
                   Inl x \<Rightarrow> Inl x
                 | Inr (names2, st4) \<Rightarrow> Inr (names, leaveNested st4)))"
| "visitS L names (ExpressionStatement node expression) st = Inr (names, visitE L names expression st)"
| "visitS L names (BlockStatement node directives body) st =
     (let st0 = enterNested st;
          st1 = assertSyntax (directives = 0) node st0
      in case visitStatements L (block names) body st1 of
           Inl x \<Rightarrow> Inl x
         | Inr (block_names, st2) \<Rightarrow> Inr (names, leaveNested st2))"
| "visitS L names (EmptyStatement node) st = Inr (names, st)"
| "visitS L names (BreakStatement node label) st =
     Inr (names, assert (\<not> label) ''labeled break is not supported'' node st)"
| "visitS L names (ContinueStatement node label) st =
     Inr (names, assert (\<not> label) ''labeled continue is not supported'' node st)"
| "visitS L names (VariableDeclaration node kind declarations) st =
     variableDeclaration L names node kind declarations st"
| "visitStatements L names [] st = Inr (names, st)"
| "visitStatements L names (child # children) st =
     (case visitS L names child st of
        Inl x \<Rightarrow> Inl x
      | Inr (names1, st1) \<Rightarrow> visitStatements L names1 children st1)"

subsection \<open>The constructor of a class\<close>

text \<open>
  A class method node: its flags, its parameters (the name and the type annotation of
  each), the annotation of its return type and its body. \<open>functionParameters\<close> and
  \<open>functionDeclarationPass1\<close> are the source's, at a class method (so \<open>nodeId\<close> is
  null and the body is a block); as no return statement is embedded, the return type of
  the function table is the declared one.
\<close>

record ClassMethod =
  methodNode :: nat
  generator :: bool
  async :: bool
  params :: "(string \<times> tsType option) list"
  returnType :: "tsType option"
  body :: stmt

fun functionParameters ::
  "library \<Rightarrow> nat \<Rightarrow> (string \<times> tsType option) list \<Rightarrow> NameTable \<Rightarrow> checker
     \<Rightarrow> (thrown \<times> checker) + (StaticType list \<times> NameTable \<times> checker)" where
  "functionParameters L node [] names st = Inr ([], names, st)"
| "functionParameters L node ((varName, typeAnno) # rest) names st =
     (let st0 = assert True ''bad parameter name'' node st
      in case (case typeAnno of
                 None \<Rightarrow> Inr (Any, st0)
               | Some anno \<Rightarrow>
                   (case visitT L names anno (assertSyntax (isTSTypeAnnotation anno) (tsNode anno) st0) of
                      Inl x \<Rightarrow> Inl x
                    | Inr s \<Rightarrow> Inr (result s, s))) of
           Inl x \<Rightarrow> Inl x
         | Inr (varType, st1) \<Rightarrow>
             (let (success, names1) = recordName varName varType (\<lambda>i. i) names;
                  st2 = assert success (''duplicated parameter name: '' @ varName) node st1
              in case functionParameters L node rest names1 st2 of
                   Inl x \<Rightarrow> Inl x
                 | Inr (paramTypes, names2, st3) \<Rightarrow> Inr (varType # paramTypes, names2, st3)))"

definition functionDeclarationPass1 ::
  "library \<Rightarrow> NameTable \<Rightarrow> ClassMethod \<Rightarrow> checker \<Rightarrow> (thrown \<times> checker) + checker" where
  "functionDeclarationPass1 L names node st =
     (let st1 = assert (\<not> generator node) ''generator functions are not supported'' (methodNode node) st;
          st2 = assert (\<not> async node) ''async functions are not supported'' (methodNode node) st1;
          funcEnv0 = function_table names;
          funcEnv1 = (case lookup names ''this'' of
                        Some info \<Rightarrow> snd (recordName ''this'' (type info) (\<lambda>i. i) funcEnv0)
                      | None \<Rightarrow> funcEnv0)
      in case functionParameters L (methodNode node) (params node) funcEnv1 st2 of
           Inl x \<Rightarrow> Inl x
         | Inr (paramTypes, funcEnv2, st3) \<Rightarrow>
             (case (case returnType node of
                      None \<Rightarrow> Inr (None, st3)
                    | Some anno \<Rightarrow>
                        (case visitT L names anno (assertSyntax (isTSTypeAnnotation anno) (tsNode anno) st3) of
                           Inl x \<Rightarrow> Inl x
                         | Inr s \<Rightarrow> Inr (Some (result s), s))) of
                Inl x \<Rightarrow> Inl x
              | Inr (declared, st4) \<Rightarrow>
                  (case visitS L funcEnv2 (body node) st4 of
                     Inl x \<Rightarrow> Inl x
                   | Inr (funcEnv3, st5) \<Rightarrow>
                       (let rtype = (case declared of None \<Rightarrow> Void | Some t \<Rightarrow> t)
                        in Inr (names_addStaticType (methodNode node) (FunctionType rtype paramTypes) st5)))))"

text \<open>
  The part of \<^verbatim>\<open>classMethod\<close> that validates a constructor in the first pass: a
  validator is made from the checker, visits the constructor, and its verdict is
  reported by the checker. The validator pushes to the log of the checker and attaches
  to the same nodes; the other fields of the checker are its own.
\<close>

definition validateConstructor ::
  "library \<Rightarrow> NameTable \<Rightarrow> StaticType \<Rightarrow> ClassMethod \<Rightarrow> checker \<Rightarrow> (thrown \<times> checker) + checker" where
  "validateConstructor L names clazz node st =
     (case functionDeclarationPass1 L names node (ConstructorChecker L st clazz) of
        Inl x \<Rightarrow> Inl x
      | Inr visitor \<Rightarrow>
          Inr (reportIsValid L clazz (methodNode node) visitor
                 (st\<lparr>errorLog := errorLog visitor, staticTypes := staticTypes visitor,
                     coercionFlags := coercionFlags visitor\<rparr>)))"

subsection \<open>Examples\<close>

text \<open>The checker a statement leaves behind, whether its visit returned or raised.\<close>

fun finalChecker :: "(thrown \<times> checker) + (NameTable \<times> checker) \<Rightarrow> checker" where
  "finalChecker (Inl (e, st)) = st"
| "finalChecker (Inr (names, st)) = st"

text \<open>A global scope that declares \<open>a: integer\<close>, \<open>b: any\<close>, \<open>f: float\<close> and
  \<open>xs: (integer | undefined)[]\<close>.\<close>

definition exampleNames :: NameTable where
  "exampleNames =
     GlobalNameTable
       [(''a'', makeInfo Integer), (''b'', makeInfo Any), (''f'', makeInfo Float),
        (''xs'', makeInfo (ArrayType (OptionalType Integer)))] None"

text \<open>
  The class \<open>C\<close>, which extends a class \<open>A\<close> and declares no property, the block of
  its body, where \<open>this\<close> is an instance of \<open>C\<close>, and its constructor
  \<^verbatim>\<open>constructor() { if (true) { super() } }\<close>, whose only call of \<open>super\<close> is inside an
  \<open>if\<close> statement. \<open>validatorAtTopLevel\<close> is the validator of \<open>C\<close> among the
  statements of the constructor body (depth 1) once a call of \<open>super\<close> has been seen
  there.
\<close>

definition classC :: classTable where
  "classC =
     [(''A'', \<lparr>superclassOf = objectType, propertyTable = [], methodTable = [], unboxedCutoff = Some 0\<rparr>),
      (''C'', \<lparr>superclassOf = InstanceType ''A'', propertyTable = [], methodTable = [],
              unboxedCutoff = Some 0\<rparr>)]"

definition classBlockOfC :: NameTable where
  "classBlockOfC = BlockNameTable [(''this'', makeInfo (InstanceType ''C''))] emptyGlobal"


text \<open>The constructor \<^verbatim>\<open>constructor() { super(); super() }\<close> of \<open>C\<close>.\<close>

definition duplicateSuperConstructor :: ClassMethod where
  "duplicateSuperConstructor =
     \<lparr>methodNode = 20, generator = False, async = False, params = [], returnType = None,
      body = BlockStatement 21 0
               [ExpressionStatement 22 (CallExpression 23 (Super 24) []),
                ExpressionStatement 25 (CallExpression 26 (Super 27) [])]\<rparr>"


text \<open>
  The scope of a function with the parameter \<open>x: integer | undefined\<close>, and the
  statement \<^verbatim>\<open>if (x != undefined) x; else x;\<close> in its body: \<open>x\<close> is read at node 6
  in the branch where the test holds and at node 8 in the other one.
\<close>

definition narrowingNames :: NameTable where
  "narrowingNames =
     FunctionNameTable [(''x'', makeInfo (OptionalType Integer))] (Some Void) emptyGlobal"

definition narrowingTest :: stmt where
  "narrowingTest =
     IfStatement 1
       (BinaryExpression 2 ''!='' (Identifier 3 ''x'') (Identifier 4 ''undefined''))
       (ExpressionStatement 5 (Identifier 6 ''x''))
       (Some (ExpressionStatement 7 (Identifier 8 ''x'')))"

section \<open>Properties\<close>

lemma numericLiteral_result:
  "result (numericLiteral node raw st) =
     (if matchesClass integerChar (rawText raw) then Integer
      else if matchesClass floatChar (rawText raw) then Float else result st)"
  by (simp add: numericLiteral_def Let_def addStaticType_def names_addStaticType_def assert_def)

subsection \<open>The constructor validator's verdict\<close>

lemma isValid_loop_last:
  "isValid_loop ps error =
     (case filter (\<lambda>(prop, flag). \<not> flag) ps of
        [] \<Rightarrow> error
      | u # us \<Rightarrow> Some (''uninitialized property: '' @ fst (last (u # us))))"
proof (induction ps arbitrary: error)
  case Nil
  show ?case by simp
next
  case (Cons a ps)
  obtain k b where a: "a = (k, b)" by (cases a)
  show ?case
    by (cases "filter (\<lambda>(prop, flag). \<not> flag) ps") (simp_all add: a Cons.IH)
qed

text \<open>
  C3, as the code has it. The validator returns one message or none, and
  \<^verbatim>\<open>classMethod\<close> pushes that one message: when some property is unflagged, the
  message names the last unflagged property in the order of enumeration and nothing is
  said about a missing super call; when every property is flagged, the message is
  "super() is not called" if no top-level super call was seen and the class does not
  extend the root object type; otherwise nothing is reported.
\<close>

theorem isValid_single_diagnostic:
  "isValid L clazz cc =
     (case filter (\<lambda>(prop, flag). \<not> flag) (properties cc) of
        [] \<Rightarrow> (if hasSuperCall cc \<or> extendsObject L clazz then None
               else Some ''super() is not called'')
      | u # us \<Rightarrow> Some (''uninitialized property: '' @ fst (last (u # us))))
   \<and> errorLog (reportIsValid L clazz node cc st) =
     (case isValid L clazz cc of
        None \<Rightarrow> errorLog st
      | Some e \<Rightarrow> errorLog st @ [Pushed e node])"
  by (simp add: isValid_def isValid_loop_last reportIsValid_def assert_def push_def Let_def
           split: option.split)

text \<open>
  C3, as the claim states it, fails: with no super call, a class that does not extend
  the root object type and two unflagged properties \<open>p\<close> and \<open>q\<close>, the claim asks for
  three diagnostics and the checker reports one, for \<open>q\<close>.
\<close>

theorem isValid_reports_one_counterexample:
  "errorLog (reportIsValid (specLibrary exampleClasses) (InstanceType ''B'') 7
       (ConstructorChecker (specLibrary exampleClasses) newTypeChecker (InstanceType ''B''))
       newTypeChecker)
     \<noteq> [Pushed ''super() is not called'' 7, Pushed ''uninitialized property: p'' 7,
        Pushed ''uninitialized property: q'' 7]
   \<and> errorLog (reportIsValid (specLibrary exampleClasses) (InstanceType ''B'') 7
       (ConstructorChecker (specLibrary exampleClasses) newTypeChecker (InstanceType ''B''))
       newTypeChecker)
     = [Pushed ''uninitialized property: q'' 7]"
  by (simp add: reportIsValid_def isValid_def assert_def push_def ConstructorChecker_def
        setProperty_def specLibrary_def exampleClasses_def classEntryOf_def newTypeChecker_def)

subsection \<open>Numeric literals\<close>

text \<open>
  C5 at the literal \<^verbatim>\<open>1e5\<close>: every character of the raw text is in the class of the
  first regular expression (\<open>e\<close> is a hexadecimal digit), so the checker gives the
  type \<open>integer\<close> to a literal that is written with an exponent.
\<close>

theorem numericLiteral_exponent_is_integer:
  "result (numericLiteral node (Some ''1e5'') st) = Integer"
  by (simp add: numericLiteral_result rawText_def matchesClass_def integerChar_def isDigit_def)

subsection \<open>Union type annotations\<close>

lemma assert_log: "set (errorLog st) \<subseteq> set (errorLog (assert b m n st))"
  by (auto simp: assert_def push_def)

lemma assert_log_eq: "errorLog (assert b m n st) = (if b then errorLog st else errorLog st @ [Pushed m n])"
  by (simp add: assert_def push_def)

lemma tsTypeReference_log: "set (errorLog st) \<subseteq> set (errorLog (tsTypeReference names node name tp st))"
  by (auto simp: tsTypeReference_def assertSyntax_def assert_log_eq Let_def split: option.splits)

lemma unionOfOptions_log: "set (errorLog st) \<subseteq> set (errorLog (unionOfOptions L node t1 t2 st))"
  by (auto simp: unionOfOptions_def assert_log_eq Let_def)

lemma visitT_log:
  "set (errorLog st) \<subseteq> set (errorLog (finalState (visitT L names t st)))"
  "(case visitParameters L names ps st of Inl (e, s) \<Rightarrow> set (errorLog st) \<subseteq> set (errorLog s)
    | Inr (ts, s) \<Rightarrow> set (errorLog st) \<subseteq> set (errorLog s))"
proof (induction L names t st and L names ps st rule: visitT_visitParameters.induct)
  case (13 L names node types st)
  show ?case
  proof (cases types)
    case Nil
    then show ?thesis by (simp add: Let_def assert_log)
  next
    case (Cons t0 rest)
    let ?st0 = "assert (length types = 2) ''only optional types are supported -- the number of options must be 2'' node st"
    have a: "set (errorLog st) \<subseteq> set (errorLog ?st0)" by (rule assert_log)
    have b: "set (errorLog ?st0) \<subseteq> set (errorLog (finalState (visitT L names t0 ?st0)))"
      using "13.IH"(1)[OF refl Cons] .
    show ?thesis
    proof (cases "visitT L names t0 ?st0")
      case (Inl x)
      then show ?thesis using a b Cons by (cases x) (auto simp: Let_def)
    next
      case (Inr st1)
      show ?thesis
      proof (cases rest)
        case Nil
        then show ?thesis using a b Cons Inr by (auto simp: Let_def)
      next
        case (Cons t1 others)
        have c: "set (errorLog st1) \<subseteq> set (errorLog (finalState (visitT L names t1 st1)))"
          using "13.IH"(2)[OF refl \<open>types = t0 # rest\<close> Inr Cons] .
        show ?thesis
        proof (cases "visitT L names t1 st1")
          case (Inl x)
          then show ?thesis using a b c Cons Inr \<open>types = t0 # rest\<close> by (cases x) (auto simp: Let_def)
        next
          case (Inr st2)
          have d: "set (errorLog st2) \<subseteq> set (errorLog (unionOfOptions L node (result st1) (result st2) st2))"
            by (rule unionOfOptions_log)
          show ?thesis using a b c d Cons Inr \<open>visitT L names t0 ?st0 = Inr st1\<close> \<open>types = t0 # rest\<close>
            by (auto simp: Let_def)
        qed
      qed
    qed
  qed
next
  case (4 L names node parameters r st)
  show ?case
  proof (cases "visitParameters L names parameters st")
    case (Inl x)
    then show ?thesis using "4.IH"(1) by (cases x) auto
  next
    case (Inr b)
    obtain ts st1 where b: "b = (ts, st1)" by (cases b)
    have a: "set (errorLog st) \<subseteq> set (errorLog st1)" using "4.IH"(1) Inr b by simp
    show ?thesis
    proof (cases r)
      case None
      then show ?thesis using a Inr b by simp
    next
      case (Some t)
      have c: "set (errorLog st1) \<subseteq> set (errorLog (finalState (visitT L names t st1)))"
        using "4.IH"(2)[OF Inr b[symmetric] Some] .
      show ?thesis using a c Inr b Some
        by (cases "visitT L names t st1") (auto split: prod.splits)
    qed
  qed
next
  case (15 L names ps st)
  then show ?case by (auto split: sum.splits prod.splits)
next
  case (16 L names t ps st)
  show ?case
  proof (cases "visitT L names t st")
    case (Inl x)
    then show ?thesis using "16.IH"(1) by (cases x) auto
  next
    case (Inr st1)
    have a: "set (errorLog st) \<subseteq> set (errorLog st1)" using "16.IH"(1) Inr by simp
    show ?thesis using a "16.IH"(2)[OF Inr] Inr
      by (cases "visitParameters L names ps st1") (auto split: prod.splits)
  qed
qed (auto split: sum.splits option.splits prod.splits simp: tsTypeReference_log)

lemma unionOfOptions_accepts:
  "(errorLog (unionOfOptions L node t1 t2 st) = errorLog st) =
     ((t1 = Null) \<noteq> (t2 = Null)
      \<and> (if t1 = Null then t2 else t1) \<noteq> Any
      \<and> \<not> isOptionalType (if t1 = Null then t2 else t1))"
  by (auto simp: unionOfOptions_def assert_log_eq Let_def)

lemma unionOfOptions_result:
  "result (unionOfOptions L node t1 t2 st) = OptionalType (if t1 = Null then t2 else t1)"
  by (simp add: unionOfOptions_def Let_def assert_def)

text \<open>
  What \<^verbatim>\<open>tsUnionType\<close> does for any number of options. With a number other than two
  the diagnostic on the number of options is pushed before the options are visited. A
  union of two options whose visits return normally is checked without a crash; the
  union node adds no diagnostic of its own exactly when one option, and only one, is
  \<open>null\<close> and the other is neither \<open>any\<close> nor an optional type; and its result is
  the optional type of the option that is not \<open>null\<close>.
\<close>

lemma tsUnionType_options:
  "(length types \<noteq> 2 \<longrightarrow>
      Pushed ''only optional types are supported -- the number of options must be 2'' node
        \<in> set (errorLog (finalState (visitT L names (TSUnionType node types) st))))
   \<and> (visitT L names t0 st = Inr st1 \<and> visitT L names t1 st1 = Inr st2 \<longrightarrow>
        (\<exists>st3. visitT L names (TSUnionType node [t0, t1]) st = Inr st3
           \<and> (errorLog st3 = errorLog st2) =
               ((result st1 = Null) \<noteq> (result st2 = Null)
                \<and> (if result st1 = Null then result st2 else result st1) \<noteq> Any
                \<and> \<not> isOptionalType (if result st1 = Null then result st2 else result st1))
           \<and> result st3 = OptionalType (if result st1 = Null then result st2 else result st1)))"
proof (intro conjI impI)
  assume len: "length types \<noteq> 2"
  let ?m = "''only optional types are supported -- the number of options must be 2''"
  let ?st0 = "assert (length types = 2) ?m node st"
  have in0: "Pushed ?m node \<in> set (errorLog ?st0)"
    using len by (simp add: assert_log_eq)
  show "Pushed ?m node \<in> set (errorLog (finalState (visitT L names (TSUnionType node types) st)))"
  proof (cases types)
    case Nil
    then show ?thesis using in0 by (simp add: Let_def)
  next
    case (Cons t0 rest)
    have b: "set (errorLog ?st0) \<subseteq> set (errorLog (finalState (visitT L names t0 ?st0)))"
      by (rule visitT_log(1))
    show ?thesis
    proof (cases "visitT L names t0 ?st0")
      case (Inl x)
      then show ?thesis using in0 b Cons by (cases x) (auto simp: Let_def)
    next
      case (Inr s1)
      show ?thesis
      proof (cases rest)
        case Nil
        then show ?thesis using in0 b Inr \<open>types = t0 # rest\<close> by (auto simp: Let_def)
      next
        case (Cons t1 others)
        have c: "set (errorLog s1) \<subseteq> set (errorLog (finalState (visitT L names t1 s1)))"
          by (rule visitT_log(1))
        show ?thesis
        proof (cases "visitT L names t1 s1")
          case (Inl x)
          then show ?thesis using in0 b c Inr Cons \<open>types = t0 # rest\<close>
            by (cases x) (auto simp: Let_def)
        next
          case (Inr s2)
          have d: "set (errorLog s2) \<subseteq> set (errorLog (unionOfOptions L node (result s1) (result s2) s2))"
            by (rule unionOfOptions_log)
          show ?thesis
            using in0 b c d Inr Cons \<open>visitT L names t0 ?st0 = Inr s1\<close> \<open>types = t0 # rest\<close>
            by (auto simp: Let_def)
        qed
      qed
    qed
  qed
next
  assume v: "visitT L names t0 st = Inr st1 \<and> visitT L names t1 st1 = Inr st2"
  have "visitT L names (TSUnionType node [t0, t1]) st
          = Inr (unionOfOptions L node (result st1) (result st2) st2)"
    using v by (simp add: assert_def)
  then show "\<exists>st3. visitT L names (TSUnionType node [t0, t1]) st = Inr st3
           \<and> (errorLog st3 = errorLog st2) =
               ((result st1 = Null) \<noteq> (result st2 = Null)
                \<and> (if result st1 = Null then result st2 else result st1) \<noteq> Any
                \<and> \<not> isOptionalType (if result st1 = Null then result st2 else result st1))
           \<and> result st3 = OptionalType (if result st1 = Null then result st2 else result st1)"
    using unionOfOptions_accepts[of L node "result st1" "result st2" st2]
          unionOfOptions_result[of L node "result st1" "result st2" st2]
    by simp
qed



text \<open>
  C7 at the annotation \<^verbatim>\<open>| integer\<close>, a union with the single option \<open>integer\<close>:
  the diagnostic on the number of options is pushed, the first option is visited, and
  the visit of \<^verbatim>\<open>node.types[1]\<close>, which is not there, raises. Nothing catches the
  \<^verbatim>\<open>TypeError\<close>, so the checker ends with it and not with its log of diagnostics.
\<close>

theorem tsUnionType_one_option_raises:
  "visitT (specLibrary []) emptyGlobal (TSUnionType 0 [TSTypeReference 1 ''integer'' False])
     newTypeChecker
   = Inl (TypeError,
          newTypeChecker\<lparr>errorLog :=
              [Pushed ''only optional types are supported -- the number of options must be 2'' 0],
            result := Integer\<rparr>)"
  by (simp add: tsTypeReference_def assertSyntax_def assert_def push_def newTypeChecker_def)

subsection \<open>Import declarations\<close>

text \<open>
  C8. In the first pass, for an import of kind \<open>value\<close> with an importer: when the
  importer throws an error log, the declaration returns normally, the log is added to
  the checker's log under the name of the source file and the name table is unchanged;
  when it throws a string, the string is pushed with the import node; any other thrown
  value is thrown again.
\<close>

theorem importer_throws:
  "firstPass st \<and> importKind node = Some ''value'' \<longrightarrow>
     (f (sourceValue node) = ThrowsErrorLog e \<longrightarrow>
        importDeclaration (Some f) node env st
          = Inr (env, st\<lparr>errorLog := errorLog st @ [Added e (sourceValue node)]\<rparr>))
   \<and> (f (sourceValue node) = ThrowsString s \<longrightarrow>
        importDeclaration (Some f) node env st
          = Inr (env, st\<lparr>errorLog := errorLog st @ [Pushed s (declNode node)]\<rparr>))
   \<and> (f (sourceValue node) = ThrowsOther v \<longrightarrow>
        importDeclaration (Some f) node env st = Inl (Rethrown v, st))"
  by (simp add: importDeclaration_def callImporter_def add_def push_def Let_def)

theorem importer_throws_witness:
  "importDeclaration (Some exampleImporter) (importOf ''broken'') emptyGlobal newTypeChecker
     = Inr (emptyGlobal, newTypeChecker\<lparr>errorLog := [Added [Pushed ''syntax error'' 0] ''broken'']\<rparr>)
   \<and> importDeclaration (Some exampleImporter) (importOf ''missing'') emptyGlobal newTypeChecker
     = Inr (emptyGlobal, newTypeChecker\<lparr>errorLog := [Pushed ''file not found'' 1]\<rparr>)
   \<and> importDeclaration (Some exampleImporter) (importOf ''other'') emptyGlobal newTypeChecker
     = Inl (Rethrown 0, newTypeChecker)"
  using importer_throws[of newTypeChecker "importOf ''broken''" exampleImporter "[Pushed ''syntax error'' 0]" emptyGlobal]
        importer_throws[of newTypeChecker "importOf ''missing''" exampleImporter _ emptyGlobal "''file not found''"]
        importer_throws[of newTypeChecker "importOf ''other''" exampleImporter _ emptyGlobal _ 0]
  by (simp add: newTypeChecker_def importOf_def exampleImporter_def)

lemma importSpecifiers_append:
  "importSpecifiers imported sourceFile (pre @ post) env st =
     (case importSpecifiers imported sourceFile pre env st of
        (env1, st1) \<Rightarrow> importSpecifiers imported sourceFile post env1 st1)"
  by (induction pre arbitrary: env st) (auto split: prod.splits)

text \<open>
  C9. A specifier whose name is found in the imported table and is not exported, at any
  place among the specifiers of an import that reaches the loop: the diagnostic is pushed
  with the specifier, and the info is imported into the global table all the same (with
  \<open>importInfo\<close> as the spec describes it, the name is then bound to that info in the
  global scope).
\<close>

theorem import_not_exported_still_copied:
  "firstPass st \<and> callImporter importer node st = Inr (Some imported, st0) \<and> isGlobal env
   \<and> specifiers node = pre @ ImportSpecifier n (ImportedIdentifier name) # post
   \<and> lookup imported name = Some info \<and> \<not> isExported info
   \<and> importSpecifiers imported (sourceValue node) pre env st0 = (env1, st1) \<longrightarrow>
     importDeclaration importer node env st =
       Inr (importSpecifiers imported (sourceValue node) post
              (importInfo name info env1)
              (st1\<lparr>errorLog := errorLog st1 @
                 [Pushed ([CHR 0x27] @ name @ [CHR 0x27] @ '' is declared but not exported in ''
                            @ sourceValue node) n]\<rparr>))
     \<and> lookupInThis (importInfo name info env1) name = Some info"
proof -
  have l: "lookupInThis (importInfo name info env1) name = Some info"
    by (cases env1) (simp_all add: lookupInThis_def importInfo_def update_conv')
  show ?thesis
    by (auto simp: importDeclaration_def importSpecifiers_append importSpecifier_def assert_def
          push_def l)
qed

theorem import_not_exported_still_copied_witness:
  "importDeclaration (Some exampleImporter) (importOf ''m'') emptyGlobal newTypeChecker
     = Inr (GlobalNameTable [(''f'', makeInfo Integer)] None,
            newTypeChecker\<lparr>errorLog :=
              [Pushed ([CHR 0x27] @ ''f'' @ [CHR 0x27] @ '' is declared but not exported in m'') 2]\<rparr>)
   \<and> lookupInThis (importInfo ''f'' (makeInfo Integer) emptyGlobal) ''f'' = Some (makeInfo Integer)"
  using import_not_exported_still_copied[of newTypeChecker "Some exampleImporter" "importOf ''m''"
          moduleTable newTypeChecker emptyGlobal "[]" 2 "''f''" "[]" "makeInfo Integer" emptyGlobal
          newTypeChecker]
  by (simp add: newTypeChecker_def importOf_def exampleImporter_def callImporter_def
        emptyGlobal_def moduleTable_def makeInfo_def importInfo_def)

subsection \<open>A visit keeps the pass\<close>

lemma assert_fields [simp]:
  "firstPass (assert b m n st) = firstPass st"
  "isConstructorChecker (assert b m n st) = isConstructorChecker st"
  "result (assert b m n st) = result st"
  "staticTypes (assert b m n st) = staticTypes st"
  "coercionFlags (assert b m n st) = coercionFlags st"
  "toplevel (assert b m n st) = toplevel st"
  "hasSuperCall (assert b m n st) = hasSuperCall st"
  "properties (assert b m n st) = properties st"
  by (simp_all add: assert_def)

lemma assertSyntax_fields [simp]:
  "firstPass (assertSyntax b n st) = firstPass st"
  "isConstructorChecker (assertSyntax b n st) = isConstructorChecker st"
  by (simp_all add: assertSyntax_def)

lemma addStaticType_fields [simp]:
  "firstPass (addStaticType n t st) = firstPass st"
  "isConstructorChecker (addStaticType n t st) = isConstructorChecker st"
  "result (addStaticType n t st) = result st"
  "errorLog (addStaticType n t st) = errorLog st"
  "coercionFlags (addStaticType n t st) = coercionFlags st"
  "toplevel (addStaticType n t st) = toplevel st"
  "hasSuperCall (addStaticType n t st) = hasSuperCall st"
  "properties (addStaticType n t st) = properties st"
  by (simp_all add: addStaticType_def names_addStaticType_def)

lemma names_addStaticType_fields [simp]:
  "firstPass (names_addStaticType n t st) = firstPass st"
  "isConstructorChecker (names_addStaticType n t st) = isConstructorChecker st"
  "result (names_addStaticType n t st) = result st"
  "errorLog (names_addStaticType n t st) = errorLog st"
  "coercionFlags (names_addStaticType n t st) = coercionFlags st"
  by (simp_all add: names_addStaticType_def)

lemma addCoercion_fields [simp]:
  "firstPass (addCoercion n t st) = firstPass st"
  "isConstructorChecker (addCoercion n t st) = isConstructorChecker st"
  "result (addCoercion n t st) = result st"
  "errorLog (addCoercion n t st) = errorLog st"
  "toplevel (addCoercion n t st) = toplevel st"
  "hasSuperCall (addCoercion n t st) = hasSuperCall st"
  "properties (addCoercion n t st) = properties st"
  by (simp_all add: addCoercion_def names_addStaticType_def names_addCoercionFlag_def)

lemma addCoercionIfAny_fields [simp]:
  "firstPass (addCoercionIfAny n t st) = firstPass st"
  "isConstructorChecker (addCoercionIfAny n t st) = isConstructorChecker st"
  "result (addCoercionIfAny n t st) = result st"
  "errorLog (addCoercionIfAny n t st) = errorLog st"
  by (simp_all add: addCoercionIfAny_def)

lemma addCoercionForBoolean_fields [simp]:
  "firstPass (addCoercionForBoolean n t st) = firstPass st"
  "isConstructorChecker (addCoercionForBoolean n t st) = isConstructorChecker st"
  "result (addCoercionForBoolean n t st) = result st"
  "errorLog (addCoercionForBoolean n t st) = errorLog st"
  by (simp_all add: addCoercionForBoolean_def)

lemma leaf_pass [simp]:
  "firstPass (identifierExpression names n x st) = firstPass st"
  "firstPass (nullLiteral n st) = firstPass st"
  "firstPass (stringLiteral n st) = firstPass st"
  "firstPass (booleanLiteral n st) = firstPass st"
  "firstPass (numericLiteral n raw st) = firstPass st"
  "firstPass (thisExpression names n st) = firstPass st"
  "firstPass (superExpression L names n st) = firstPass st"
  "firstPass (assertLvalue e names st) = firstPass st"
  by (simp_all add: identifierExpression_def nullLiteral_def stringLiteral_def booleanLiteral_def
        numericLiteral_def thisExpression_def superExpression_def assertLvalue_def Let_def
        split: option.split expr.split)

lemma access_pass [simp]:
  "firstPass (snd (elementAccess L n obj st)) = firstPass st"
  "firstPass (snd (propertyAccess L obj pn pname ro st)) = firstPass st"
  "firstPass (snd (methodAccess L obj pname st)) = firstPass st"
  by (simp_all add: elementAccess_def propertyAccess_def methodAccess_def Let_def
        split: StaticType.split option.split)

lemma operator_pass [simp]:
  "firstPass (unaryOperator L n op a t st) = firstPass st"
  "firstPass (updateOperator L n op a t st) = firstPass st"
  "firstPass (binaryOperator L n op l lt r rt st) = firstPass st"
  "firstPass (instanceofOperator names l lt e st) = firstPass st"
  "firstPass (assignmentOperator L n op l lt r rt st) = firstPass st"
  "firstPass (memberAssignmentOperator L n op l c ch et r rt st) = firstPass st"
  "firstPass (markInitialized op obj prop c st) = firstPass st"
  "firstPass (logicalOperator n op l lt r rt st) = firstPass st"
  "firstPass (conditionalResult L n tt et st) = firstPass st"
  "firstPass (enterNested st) = firstPass st"
  "firstPass (leaveNested st) = firstPass st"
  "firstPass (superCallAtTopLevel n st) = firstPass st"
  "firstPass (checkArgument L a at pt st) = firstPass st"
  by (simp_all add: unaryOperator_def updateOperator_def binaryOperator_def instanceofOperator_def
        assignmentOperator_def memberAssignmentOperator_def markInitialized_def logicalOperator_def
        conditionalResult_def enterNested_def leaveNested_def superCallAtTopLevel_def
        checkArgument_def Let_def split: option.split expr.split)

lemma callExpressionArgs_firstPass:
  "(\<And>a st. a \<in> set args \<Longrightarrow> firstPass (visitE L names a st) = firstPass st) \<Longrightarrow>
   firstPass (callExpressionArgs L names args paramTypes st) = firstPass st"
proof (induction args arbitrary: paramTypes st)
  case Nil
  show ?case by (simp add: callExpressionArgs.simps)
next
  case (Cons a args)
  have a: "\<And>st. firstPass (visitE L names a st) = firstPass st"
    by (rule Cons.prems) simp
  have r: "\<And>paramTypes st. firstPass (callExpressionArgs L names args paramTypes st) = firstPass st"
    by (rule Cons.IH) (rule Cons.prems, simp)
  show ?case
    by (cases paramTypes) (simp_all add: callExpressionArgs.simps Let_def r a)
qed

lemma superConstructorCall_firstPass:
  "(\<And>a st. a \<in> set args \<Longrightarrow> firstPass (visitE L names a st) = firstPass st) \<Longrightarrow>
   firstPass (superConstructorCall L names t node callee args st) = firstPass st"
  by (simp add: superConstructorCall.simps callExpressionArgs_firstPass Let_def split: StaticType.split)

lemma checkMemberExpr_firstPass:
  assumes o: "\<And>st. firstPass (visitE L names obj st) = firstPass st"
      and p: "\<And>st. firstPass (visitE L names p st) = firstPass st"
  shows "firstPass (snd (checkMemberExpr L names node obj p computed ro st)) = firstPass st"
  using o p by (simp add: checkMemberExpr.simps Let_def split: expr.split)

lemma checkMethodExpr_firstPass:
  assumes o: "\<And>st. firstPass (visitE L names obj st) = firstPass st"
  shows "firstPass (snd (checkMethodExpr L names obj p computed st)) = firstPass st"
  using o by (simp add: checkMethodExpr.simps split: expr.split)

lemma case_not_member:
  "\<not> isMemberExpression e \<Longrightarrow>
   (case e of MemberExpression n obj p c \<Rightarrow> F n obj p c | _ \<Rightarrow> G) = G"
  by (cases e) (simp_all add: isMemberExpression_def)

lemma visitE_assign_member:
  "visitE L names (AssignmentExpression node op (MemberExpression leftNode obj p computed) right) st =
     (let st1 = snd (checkMemberExpr L names leftNode obj p computed False st);
          checked = fst (checkMemberExpr L names leftNode obj p computed False st);
          st4 = (if \<not> checked \<and> computed
                 then (visitE L names right st1)\<lparr>result := Any\<rparr>
                 else (let st2 = visitE L names right st1
                       in memberAssignmentOperator L node op leftNode computed checked
                            (result st1) (nodeOf right) (result st2) st2))
      in markInitialized op obj p computed st4)"
  by (simp add: visitE.simps(9) assertLvalue_def Let_def case_prod_beta)

lemma visitE_assign_other:
  "\<not> isMemberExpression left \<Longrightarrow>
   visitE L names (AssignmentExpression node op left right) st =
     (let st1 = assertLvalue left names st;
          st2 = visitE L names left st1;
          st3 = visitE L names right st2
      in assignmentOperator L node op (nodeOf left) (result st2) (nodeOf right) (result st3) st3)"
  by (simp add: visitE.simps(9) case_not_member)

lemma visitE_firstPass: "firstPass (visitE L names e st) = firstPass st"
proof (induction e arbitrary: st rule: measure_induct_rule[where f = size])
  case (less e)
  show ?case
  proof (cases e)
    case (AssignmentExpression node op left right)
    have r: "\<And>st. firstPass (visitE L names right st) = firstPass st"
      using less.IH AssignmentExpression by simp
    have l: "\<And>st. firstPass (visitE L names left st) = firstPass st"
      using less.IH AssignmentExpression by simp
    show ?thesis
    proof (cases "isMemberExpression left")
      case True
      then obtain leftNode obj p computed where left: "left = MemberExpression leftNode obj p computed"
        by (cases left) (simp_all add: isMemberExpression_def)
      have "\<And>st. firstPass (visitE L names obj st) = firstPass st"
           "\<And>st. firstPass (visitE L names p st) = firstPass st"
        using less.IH AssignmentExpression left by simp_all
      then have m: "\<And>c st. firstPass (snd (checkMemberExpr L names leftNode obj p c False st)) = firstPass st"
        by (rule checkMemberExpr_firstPass)
      show ?thesis
        unfolding AssignmentExpression left visitE_assign_member using r m
        by (simp add: Let_def)
    next
      case False
      show ?thesis
        unfolding AssignmentExpression visitE_assign_other[OF False] using r l
        by (simp add: Let_def)
    qed
  next
    case (MemberExpression node obj p computed)
    have "\<And>st. firstPass (visitE L names obj st) = firstPass st"
         "\<And>st. firstPass (visitE L names p st) = firstPass st"
      using less.IH MemberExpression by simp_all
    then show ?thesis
      using MemberExpression by (simp add: visitE.simps checkMemberExpr_firstPass)
  next
    case (CallExpression node callee arguments)
    have c: "\<And>st. firstPass (visitE L names callee st) = firstPass st"
      using less.IH CallExpression by simp
    have args: "\<And>a st. a \<in> set arguments \<Longrightarrow> firstPass (visitE L names a st) = firstPass st"
    proof -
      fix a st assume "a \<in> set arguments"
      then have "size a < size e"
        using CallExpression size_list_estimation'[of a arguments "size a" size] by simp
      then show "firstPass (visitE L names a st) = firstPass st" by (rule less.IH)
    qed
    note a = callExpressionArgs_firstPass[of arguments L names, OF args]
      superConstructorCall_firstPass[of arguments L names, OF args]
    define st1 where "st1 = (case callee of
                   MemberExpression calleeNode obj prop computed \<Rightarrow>
                     (let (isMethod, st0) = checkMethodExpr L names obj prop computed st
                      in if isMethod then st0 else visitE L names callee st0)
                 | _ \<Rightarrow> visitE L names callee st)"
    have s1: "firstPass st1 = firstPass st"
    proof (cases "isMemberExpression callee")
      case True
      then obtain calleeNode obj p computed where
        callee: "callee = MemberExpression calleeNode obj p computed"
        by (cases callee) (simp_all add: isMemberExpression_def)
      have "\<And>st. firstPass (visitE L names obj st) = firstPass st"
        using less.IH CallExpression callee by simp
      then have m: "\<And>st. firstPass (snd (checkMethodExpr L names obj p computed st)) = firstPass st"
        by (rule checkMethodExpr_firstPass)
      have "st1 = (let (isMethod, st0) = checkMethodExpr L names obj p computed st
                   in if isMethod then st0 else visitE L names callee st0)"
        unfolding st1_def by (simp only: callee expr.case)
      then show ?thesis using c m by (simp add: Let_def case_prod_beta)
    next
      case False
      show ?thesis unfolding st1_def case_not_member[OF False] by (rule c)
    qed
    show ?thesis
      unfolding CallExpression using a s1[unfolded st1_def]
      by (simp add: visitE.simps(13) Let_def split: StaticType.split)
  qed (use less.IH in \<open>simp_all add: visitE.simps Let_def\<close>)
qed

subsection \<open>A visit only adds to the error log\<close>

lemma assert_errorLog:
  "errorLog (assert b m n st) = (if b then errorLog st else errorLog st @ [Pushed m n])"
  by (simp add: assert_def push_def)

lemma basic_log [simp]:
  "x \<in> set (errorLog st) \<Longrightarrow> x \<in> set (errorLog (assert b m n st))"
  "x \<in> set (errorLog st) \<Longrightarrow> x \<in> set (errorLog (assertSyntax b n st))"
  by (simp_all add: assertSyntax_def assert_errorLog)

lemma leaf_log [simp]:
  "x \<in> set (errorLog st) \<Longrightarrow> x \<in> set (errorLog (identifierExpression names n y st))"
  "x \<in> set (errorLog st) \<Longrightarrow> x \<in> set (errorLog (nullLiteral n st))"
  "x \<in> set (errorLog st) \<Longrightarrow> x \<in> set (errorLog (stringLiteral n st))"
  "x \<in> set (errorLog st) \<Longrightarrow> x \<in> set (errorLog (booleanLiteral n st))"
  "x \<in> set (errorLog st) \<Longrightarrow> x \<in> set (errorLog (numericLiteral n raw st))"
  "x \<in> set (errorLog st) \<Longrightarrow> x \<in> set (errorLog (thisExpression names n st))"
  "x \<in> set (errorLog st) \<Longrightarrow> x \<in> set (errorLog (superExpression L names n st))"
  "x \<in> set (errorLog st) \<Longrightarrow> x \<in> set (errorLog (assertLvalue e names st))"
  by (simp_all add: identifierExpression_def nullLiteral_def stringLiteral_def booleanLiteral_def
        numericLiteral_def thisExpression_def superExpression_def assertLvalue_def Let_def
        split: option.split expr.split)

lemma access_log [simp]:
  "x \<in> set (errorLog st) \<Longrightarrow> x \<in> set (errorLog (snd (elementAccess L n obj st)))"
  "x \<in> set (errorLog st) \<Longrightarrow> x \<in> set (errorLog (snd (propertyAccess L obj pn pname ro st)))"
  "x \<in> set (errorLog st) \<Longrightarrow> x \<in> set (errorLog (snd (methodAccess L obj pname st)))"
  by (simp_all add: elementAccess_def propertyAccess_def methodAccess_def Let_def
        split: StaticType.split option.split)

lemma operator_log [simp]:
  "x \<in> set (errorLog st) \<Longrightarrow> x \<in> set (errorLog (unaryOperator L n op a t st))"
  "x \<in> set (errorLog st) \<Longrightarrow> x \<in> set (errorLog (updateOperator L n op a t st))"
  "x \<in> set (errorLog st) \<Longrightarrow> x \<in> set (errorLog (binaryOperator L n op l lt r rt st))"
  "x \<in> set (errorLog st) \<Longrightarrow> x \<in> set (errorLog (instanceofOperator names l lt e st))"
  "x \<in> set (errorLog st) \<Longrightarrow> x \<in> set (errorLog (assignmentOperator L n op l lt r rt st))"
  "x \<in> set (errorLog st) \<Longrightarrow> x \<in> set (errorLog (memberAssignmentOperator L n op l c ch et r rt st))"
  "x \<in> set (errorLog st) \<Longrightarrow> x \<in> set (errorLog (markInitialized op obj p c st))"
  "x \<in> set (errorLog st) \<Longrightarrow> x \<in> set (errorLog (logicalOperator n op l lt r rt st))"
  "x \<in> set (errorLog st) \<Longrightarrow> x \<in> set (errorLog (conditionalResult L n tt et st))"
  "x \<in> set (errorLog st) \<Longrightarrow> x \<in> set (errorLog (enterNested st))"
  "x \<in> set (errorLog st) \<Longrightarrow> x \<in> set (errorLog (leaveNested st))"
  "x \<in> set (errorLog st) \<Longrightarrow> x \<in> set (errorLog (superCallAtTopLevel n st))"
  "x \<in> set (errorLog st) \<Longrightarrow> x \<in> set (errorLog (checkArgument L a at pt st))"
  by (simp_all add: unaryOperator_def updateOperator_def binaryOperator_def instanceofOperator_def
        assignmentOperator_def memberAssignmentOperator_def markInitialized_def logicalOperator_def
        conditionalResult_def enterNested_def leaveNested_def superCallAtTopLevel_def
        checkArgument_def Let_def split: option.split expr.split)






subsection \<open>Arithmetic operators\<close>

lemma binaryOperator_arithmetic:
  assumes "op \<in> {''+'', ''-'', ''*'', ''/'', ''**''}"
  shows "errorLog (binaryOperator L node op l lt r rt st) =
           (if (isNumeric lt \<or> lt = Any) \<and> (isNumeric rt \<or> rt = Any) then errorLog st
            else errorLog st @ [Pushed (invalidOperandsMessage L op lt rt) node])"
    and "result (binaryOperator L node op l lt r rt st) =
           (if lt = Any \<or> rt = Any then Any
            else if lt = Float \<or> rt = Float then Float else Integer)"
  using assms
  by (elim insertE emptyE; simp add: binaryOperator_def Let_def assert_errorLog addStaticType_def)+

text \<open>
  C6. For \<open>+\<close>, \<open>-\<close>, \<open>*\<close>, \<open>/\<close> and \<open>**\<close>, with \<open>lt\<close> and \<open>rt\<close> the types that
  the visits of the left and of the right operand leave in \<open>result\<close>: the binary
  expression adds a diagnostic to those of its operands exactly when some operand is
  neither integer, float nor any; and its type is any if an operand is any, else float
  if an operand is float, else integer.
\<close>

theorem binaryExpression_arithmetic:
  assumes "op \<in> {''+'', ''-'', ''*'', ''/'', ''**''}"
    and "st1 = visitE L names left st"
    and "st2 = visitE L names right st1"
  shows "(errorLog (visitE L names (BinaryExpression node op left right) st) = errorLog st2)
           = (result st1 \<in> {Integer, Float, Any} \<and> result st2 \<in> {Integer, Float, Any})
       \<and> result (visitE L names (BinaryExpression node op left right) st) =
           (if result st1 = Any \<or> result st2 = Any then Any
            else if result st1 = Float \<or> result st2 = Float then Float else Integer)"
proof -
  have ne: "op \<noteq> ''instanceof''" using assms(1) by auto
  have eq: "visitE L names (BinaryExpression node op left right) st
              = binaryOperator L node op (nodeOf left) (result st1) (nodeOf right) (result st2) st2"
    using ne assms(2,3) by (simp add: visitE.simps Let_def)
  show ?thesis
    unfolding eq binaryOperator_arithmetic[OF assms(1)]
    by (auto simp: isNumeric_def)
qed

text \<open>C6 at \<^verbatim>\<open>a + f\<close> with \<open>a: integer\<close> and \<open>f: float\<close>, in the second pass: no
  diagnostic, and the type is float.\<close>

theorem binaryExpression_arithmetic_witness:
  "result (visitE (specLibrary []) exampleNames
             (BinaryExpression 0 ''+'' (Identifier 1 ''a'') (Identifier 2 ''f'')) secondPassChecker) = Float
   \<and> errorLog (visitE (specLibrary []) exampleNames
             (BinaryExpression 0 ''+'' (Identifier 1 ''a'') (Identifier 2 ''f'')) secondPassChecker) = []"
proof -
  have e: "result (visitE (specLibrary []) exampleNames (Identifier 1 ''a'') secondPassChecker) = Integer
     \<and> result (visitE (specLibrary []) exampleNames (Identifier 2 ''f'')
                 (visitE (specLibrary []) exampleNames (Identifier 1 ''a'') secondPassChecker)) = Float
     \<and> errorLog (visitE (specLibrary []) exampleNames (Identifier 2 ''f'')
                 (visitE (specLibrary []) exampleNames (Identifier 1 ''a'') secondPassChecker)) = []"
    by code_simp
  show ?thesis
    using binaryExpression_arithmetic[of "''+''" _ "specLibrary []" exampleNames "Identifier 1 ''a''"
            secondPassChecker _ "Identifier 2 ''f''" 0, OF _ refl refl] e
    by simp
qed

subsection \<open>Assignments\<close>

lemma addCoercion_flags:
  "coercionFlags (addCoercion n t st) = (if firstPass st then coercionFlags st else (coercionFlags st)(n := True))"
  by (simp add: addCoercion_def names_addCoercionFlag_def names_addStaticType_def)





lemma elementAccess_checked:
  "\<not> firstPass st \<Longrightarrow> fst (elementAccess L node obj st)"
  by (simp add: elementAccess_def Let_def split: StaticType.split)

lemma checkMemberExpr_checked:
  "\<not> firstPass st \<Longrightarrow> fst (checkMemberExpr L names node obj p True ro st)"
  by (simp add: checkMemberExpr.simps Let_def visitE_firstPass elementAccess_checked)

lemma memberAssignmentOperator_flags:
  "\<not> firstPass st \<Longrightarrow>
   coercionFlags (memberAssignmentOperator L node ''='' l c ch et r rt st) l
   \<and> coercionFlags (memberAssignmentOperator L node ''='' l c ch et r rt st) r"
  by (simp add: memberAssignmentOperator_def Let_def addCoercion_flags)

lemma markInitialized_flags [simp]:
  "coercionFlags (markInitialized op obj p c st) = coercionFlags st"
  by (simp add: markInitialized_def split: expr.split)

text \<open>
  C10. In the second pass, after an assignment with operator \<open>=\<close> whose left-hand side
  is a member expression (a property access or an element access), the node of the
  left-hand side and the node of the right-hand side both have the coercion flag,
  whatever relation the type of the right-hand side has with the element type.
\<close>

theorem member_assignment_sets_both_flags:
  assumes "\<not> firstPass st"
    and "st' = visitE L names
                 (AssignmentExpression node ''='' (MemberExpression leftNode obj p computed) right) st"
  shows "coercionFlags st' leftNode \<and> coercionFlags st' (nodeOf right)"
proof -
  let ?c = "checkMemberExpr L names leftNode obj p computed False st"
  have fp: "\<not> firstPass (visitE L names right (snd ?c))"
    using assms(1) by (simp add: visitE_firstPass checkMemberExpr_firstPass)
  have ch: "\<not> (\<not> fst ?c \<and> computed)"
    using checkMemberExpr_checked[OF assms(1)] by (cases computed) auto
  have "st' = markInitialized ''='' obj p computed
                (memberAssignmentOperator L node ''='' leftNode computed (fst ?c) (result (snd ?c))
                   (nodeOf right) (result (visitE L names right (snd ?c)))
                   (visitE L names right (snd ?c)))"
    unfolding assms(2) visitE_assign_member using ch by (simp only: Let_def if_False)
  then show ?thesis
    using memberAssignmentOperator_flags[OF fp] by simp
qed

text \<open>C10 at \<^verbatim>\<open>xs[0] = a\<close> with \<open>xs: (integer | undefined)[]\<close> and \<open>a: integer\<close>, in
  the second pass: \<open>integer\<close> is a subtype of the element type and is not consistent
  with it, the assignment is accepted, and both nodes have the coercion flag.\<close>

theorem member_assignment_sets_both_flags_witness:
  "coercionFlags (visitE (specLibrary []) exampleNames
       (AssignmentExpression 0 ''=''
          (MemberExpression 1 (Identifier 2 ''xs'') (NumericLiteral 3 (Some ''0'')) True)
          (Identifier 4 ''a'')) secondPassChecker) 1
   \<and> coercionFlags (visitE (specLibrary []) exampleNames
       (AssignmentExpression 0 ''=''
          (MemberExpression 1 (Identifier 2 ''xs'') (NumericLiteral 3 (Some ''0'')) True)
          (Identifier 4 ''a'')) secondPassChecker) 4
   \<and> \<not> isConsistent (specLibrary []) Integer (OptionalType Integer)
   \<and> isSubtype (specLibrary []) Integer (OptionalType Integer)
   \<and> errorLog (visitE (specLibrary []) exampleNames
       (AssignmentExpression 0 ''=''
          (MemberExpression 1 (Identifier 2 ''xs'') (NumericLiteral 3 (Some ''0'')) True)
          (Identifier 4 ''a'')) secondPassChecker) = []"
proof -
  have e: "\<not> firstPass secondPassChecker
     \<and> \<not> isConsistent (specLibrary []) Integer (OptionalType Integer)
     \<and> isSubtype (specLibrary []) Integer (OptionalType Integer)
     \<and> errorLog (visitE (specLibrary []) exampleNames
         (AssignmentExpression 0 ''=''
            (MemberExpression 1 (Identifier 2 ''xs'') (NumericLiteral 3 (Some ''0'')) True)
            (Identifier 4 ''a'')) secondPassChecker) = []"
    by code_simp
  show ?thesis
    using member_assignment_sets_both_flags[of secondPassChecker _ "specLibrary []" exampleNames 0 1
            "Identifier 2 ''xs''" "NumericLiteral 3 (Some ''0'')" True "Identifier 4 ''a''", OF _ refl] e
    by simp
qed

subsection \<open>Calls of super in a constructor\<close>




text \<open>The first pass over a method that is neither a generator nor asynchronous and
  has no parameter and no annotation of its return type.\<close>

lemma functionDeclarationPass1_plain:
  assumes "\<not> generator m" and "\<not> async m" and "params m = []" and "returnType m = None"
  shows "functionDeclarationPass1 L names m st =
           (case visitS L (case lookup names ''this'' of
                             Some info \<Rightarrow> snd (recordName ''this'' (type info) (\<lambda>i. i) (function_table names))
                           | None \<Rightarrow> function_table names) (body m) st of
              Inl x \<Rightarrow> Inl x
            | Inr (funcEnv, s) \<Rightarrow> Inr (names_addStaticType (methodNode m) (FunctionType Void []) s))"
  using assms by (simp add: functionDeclarationPass1_def assert_def Let_def split: sum.split)


text \<open>The validation of \<^verbatim>\<open>constructor() { super(); super() }\<close> in the class
  \<open>C\<close>: the second call, and only it, is reported.\<close>

lemma duplicate_super_call_reported:
  "errorLog (finalState (validateConstructor (specLibrary classC) classBlockOfC (InstanceType ''C'')
                           duplicateSuperConstructor newTypeChecker))
     = [Pushed ''cannot call super() here'' 26]"
proof -
  have m: "\<not> generator duplicateSuperConstructor" "\<not> async duplicateSuperConstructor"
    "params duplicateSuperConstructor = []" "returnType duplicateSuperConstructor = None"
    by (simp_all add: duplicateSuperConstructor_def)
  show ?thesis
    unfolding validateConstructor_def functionDeclarationPass1_plain[OF m]
    by code_simp
qed

subsection \<open>Reading a variable of optional type in the branches of a test\<close>

text \<open>
  C1. The checker has no narrowing: in the second pass, whatever the test of an \<open>if\<close>
  statement is, a variable read in the branch where the test holds and read in the
  other branch has, at both reads, the type that the name table declares for it. So
  for \<open>x\<close> of the optional type of \<open>T\<close> and the test \<^verbatim>\<open>x != undefined\<close>, the reads
  have the optional type, and neither \<open>T\<close> nor \<open>null\<close>.
\<close>

theorem reads_in_branches_keep_declared_type:
  assumes "lookup names x = Some info" and "\<not> isTypeName info" and "x \<noteq> ''undefined''"
    and "\<not> firstPass st" and "i \<noteq> j"
  shows "staticTypes (finalChecker (visitS L names
           (IfStatement node test (ExpressionStatement a (Identifier i x))
              (Some (ExpressionStatement b (Identifier j x)))) st)) i = Some (type info)
       \<and> staticTypes (finalChecker (visitS L names
           (IfStatement node test (ExpressionStatement a (Identifier i x))
              (Some (ExpressionStatement b (Identifier j x)))) st)) j = Some (type info)"
proof -
  let ?st2 = "addCoercionForBoolean (nodeOf test) (result (visitE L names test (enterNested st)))
                (visitE L names test (enterNested st))"
  have fp: "\<not> firstPass ?st2"
    using assms(4) by (simp add: visitE_firstPass)
  show ?thesis
    using assms(1,2,3,5) fp
    by (simp add: Let_def visitE.simps identifierExpression_def addStaticType_def
          names_addStaticType_def leaveNested_def)
qed

text \<open>C1 at \<^verbatim>\<open>if (x != undefined) x; else x;\<close> with \<open>x: integer | undefined\<close>: both
  reads of \<open>x\<close> have the type \<open>integer | undefined\<close>.\<close>

theorem reads_in_branches_keep_declared_type_witness:
  "lookup narrowingNames ''x'' = Some (makeInfo (OptionalType Integer))
   \<and> staticTypes (finalChecker (visitS (specLibrary []) narrowingNames narrowingTest secondPassChecker)) 6
       = Some (OptionalType Integer)
   \<and> staticTypes (finalChecker (visitS (specLibrary []) narrowingNames narrowingTest secondPassChecker)) 8
       = Some (OptionalType Integer)"
proof -
  have e: "lookup narrowingNames ''x'' = Some (makeInfo (OptionalType Integer))
     \<and> \<not> isTypeName (makeInfo (OptionalType Integer)) \<and> \<not> firstPass secondPassChecker
     \<and> type (makeInfo (OptionalType Integer)) = OptionalType Integer"
    by code_simp
  show ?thesis
    unfolding narrowingTest_def
    using reads_in_branches_keep_declared_type[of narrowingNames "''x''" "makeInfo (OptionalType Integer)"
            secondPassChecker 6 8 "specLibrary []" 1
            "BinaryExpression 2 ''!='' (Identifier 3 ''x'') (Identifier 4 ''undefined'')" 5 7] e
    by simp
qed

end
